theory Spec2Isabelle
  imports Main "HOL-Library.Word"
begin

unbundle bit_operations_syntax

section \<open>Constants of the missing headers\<close>

text \<open>
  The headers \<^verbatim>\<open>param.h\<close>, \<^verbatim>\<open>fs.h\<close>, \<^verbatim>\<open>file.h\<close> and \<^verbatim>\<open>stat.h\<close> are not part of the
  sources at hand.  The sizes they declare are taken as parameters, collected in one record that
  every operation receives; the theorems hold for every choice of them.
\<close>

record params =
  NDIRECT :: nat   \<comment> \<open>direct entries of an inode\<close>
  MAXFILE :: nat   \<comment> \<open>largest file, in blocks\<close>
  DIRSIZ :: nat    \<comment> \<open>bytes of a directory entry's name\<close>
  MAXPATH :: nat   \<comment> \<open>bytes of a path buffer\<close>
  PASSLEN :: nat   \<comment> \<open>bytes of an inode's password buffer\<close>
  NPROC :: nat     \<comment> \<open>processes, and columns of the exemption table\<close>
  NINODE :: nat    \<comment> \<open>entries of the inode cache\<close>
  NDEV :: nat      \<comment> \<open>entries of the device switch\<close>

text \<open>Bytes are \<^typ>\<open>char\<close>; the C types \<^verbatim>\<open>uint\<close>, \<^verbatim>\<open>short\<close> and \<^verbatim>\<open>int\<close> are words.\<close>

type_synonym uint = "32 word"
type_synonym short = "16 word"

definition NUL :: char where
  "NUL = CHR 0x00"

definition SLASH :: char where
  "SLASH = CHR ''/''"

text \<open>The values of stock xv6, for running the model on concrete inputs.\<close>

definition xv6 :: params where
  "xv6 = \<lparr>NDIRECT = 12, MAXFILE = 12 + 128 + 128 * 128, DIRSIZ = 14, MAXPATH = 128,
           PASSLEN = 10, NPROC = 64, NINODE = 50, NDEV = 10\<rparr>"

section \<open>Paths: \<^verbatim>\<open>skipelem\<close>\<close>

text \<open>
  A \<^verbatim>\<open>char*\<close> that is read as a string is the list of the bytes from the pointer on; the end of
  the list stands for the terminating NUL, so \<^verbatim>\<open>*p\<close> is \<open>peek p\<close> and \<^verbatim>\<open>p++\<close> is \<open>tl p\<close>.
\<close>

definition peek :: "string \<Rightarrow> char" where
  "peek p = (case p of [] \<Rightarrow> NUL | c # _ \<Rightarrow> c)"

text \<open>\<^verbatim>\<open>while(*path == '/') path++;\<close>\<close>

fun skip_slashes :: "string \<Rightarrow> string" where
  "skip_slashes [] = []"
| "skip_slashes (c # cs) = (if c = SLASH then skip_slashes cs else c # cs)"

text \<open>\<^verbatim>\<open>while(*path != '/' && *path != 0) path++;\<close>\<close>

fun skip_name :: "string \<Rightarrow> string" where
  "skip_name [] = []"
| "skip_name (c # cs) = (if c \<noteq> SLASH \<and> c \<noteq> NUL then skip_name cs else c # cs)"

text \<open>
  \<^verbatim>\<open>memmove(dst, src, n)\<close> on a buffer given as the list of its bytes. The source is read as far as
  it is known; the caller provides a destination of at least \<open>n\<close> bytes.
\<close>

definition memmove :: "char list \<Rightarrow> char list \<Rightarrow> nat \<Rightarrow> char list" where
  "memmove dst src n = take n src @ drop n dst"

text \<open>
  \<^verbatim>\<open>skipelem(path, name)\<close>: \<open>None\<close> is the null pointer; otherwise the remainder of the path and
  the bytes of the buffer \<open>name\<close> after the call.
\<close>

definition skipelem :: "params \<Rightarrow> string \<Rightarrow> char list \<Rightarrow> (string \<times> char list) option" where
  "skipelem K path name =
     (let path1 = skip_slashes path in
      if peek path1 = NUL then None
      else
        let s = path1;
            path2 = skip_name path1;
            len = length s - length path2;
            name' = (if len \<ge> DIRSIZ K then memmove name s (DIRSIZ K)
                     else (memmove name s len)[len := NUL])
        in Some (skip_slashes path2, name'))"

text \<open>The next component of a path: the bytes after the leading slashes, up to a slash or NUL.\<close>

definition component :: "string \<Rightarrow> string" where
  "component path = takeWhile (\<lambda>c. c \<noteq> SLASH \<and> c \<noteq> NUL) (skip_slashes path)"

definition after_component :: "string \<Rightarrow> string" where
  "after_component path = dropWhile (\<lambda>c. c \<noteq> SLASH \<and> c \<noteq> NUL) (skip_slashes path)"

section \<open>Errors\<close>

text \<open>
  A kernel panic halts the machine; it is a value of the model, with the message of the source.
  \<open>Blocked\<close> is a caller put to sleep on a busy inode: the model runs one thread, so nobody
  wakes it up. \<open>Undefined\<close> is an access outside an array, which C leaves undefined.
\<close>

datatype error = Panic string | Blocked | Undefined

section \<open>Disk blocks\<close>

text \<open>
  \<^verbatim>\<open>BSIZE\<close> is 512, the number \<^verbatim>\<open>filewrite\<close> multiplies by; a block holds \<^verbatim>\<open>BSIZE / sizeof(uint)\<close>
  block numbers and a bitmap block \<^verbatim>\<open>BSIZE * 8\<close> bits. A buffer's \<^verbatim>\<open>data\<close> is a map from the
  index to the byte; indices from \<open>BSIZE\<close> on are never used.
\<close>

definition BSIZE :: nat where
  "BSIZE = 512"

definition NINDIRECT :: nat where
  "NINDIRECT = BSIZE div 4"

definition BPB :: nat where
  "BPB = BSIZE * 8"

type_synonym block = "nat \<Rightarrow> char"

definition zero_block :: block where
  "zero_block = (\<lambda>i. NUL)"

text \<open>\<^verbatim>\<open>((uint*)bp->data)[i]\<close>, read and written, on a little-endian machine.\<close>

definition get32 :: "block \<Rightarrow> nat \<Rightarrow> uint" where
  "get32 d i = word_of_nat (of_char (d (4 * i)) + 256 * of_char (d (4 * i + 1))
                 + 65536 * of_char (d (4 * i + 2)) + 16777216 * of_char (d (4 * i + 3)))"

definition set32 :: "block \<Rightarrow> nat \<Rightarrow> uint \<Rightarrow> block" where
  "set32 d i v = d(4 * i := char_of (unat v),
                   4 * i + 1 := char_of (unat v div 256),
                   4 * i + 2 := char_of (unat v div 65536),
                   4 * i + 3 := char_of (unat v div 16777216))"

text \<open>The bit operations of the allocator on one byte, with the mask \<^verbatim>\<open>m = 1 << k\<close>.\<close>

definition byte_test :: "char \<Rightarrow> nat \<Rightarrow> bool" where
  \<comment> \<open>\<^verbatim>\<open>(c & m) != 0\<close>\<close>
  "byte_test c k = bit (of_char c :: nat) k"

definition byte_set :: "char \<Rightarrow> nat \<Rightarrow> char" where
  \<comment> \<open>\<^verbatim>\<open>c | m\<close>\<close>
  "byte_set c k = char_of (set_bit k (of_char c :: nat))"

definition byte_clear :: "char \<Rightarrow> nat \<Rightarrow> char" where
  \<comment> \<open>\<^verbatim>\<open>c & ~m\<close>\<close>
  "byte_clear c k = char_of (unset_bit k (of_char c :: nat))"

section \<open>The state: disk, inode cache, process\<close>

text \<open>
  Modelled from the spec: \<^verbatim>\<open>fs.h\<close> and \<^verbatim>\<open>file.h\<close> (the structures \<^verbatim>\<open>superblock\<close>, \<^verbatim>\<open>dinode\<close>,
  \<^verbatim>\<open>dirent\<close> and \<^verbatim>\<open>inode\<close>, and the layout macros \<^verbatim>\<open>IBLOCK\<close>, \<^verbatim>\<open>BBLOCK\<close>, \<^verbatim>\<open>IPB\<close>) are missing.
  The spec has the layout positional: the superblock at a fixed block, the inode table after it,
  the free bitmap after that, data blocks last; a dinode is a fixed-size record at a position
  given by its inode number. So each device has four regions, each a component of the state:
  the superblock, the dinodes by inode number, the bitmap blocks by their index in the bitmap
  region (\<^verbatim>\<open>BBLOCK(b, ninodes)\<close> is the block of index \<open>b div BPB\<close>), and the other blocks by block
  number. The fields are those the source reads and writes.
  The buffer cache and the log are outside the sources: \<^verbatim>\<open>bread\<close> gives the current bytes of a
  block, a store to \<^verbatim>\<open>bp->data\<close> changes them, \<^verbatim>\<open>log_write\<close> and \<^verbatim>\<open>brelse\<close> add nothing.
\<close>

record superblock =
  sb_size :: uint      \<comment> \<open>\<^verbatim>\<open>sb.size\<close>: blocks of the device\<close>
  sb_ninodes :: uint   \<comment> \<open>\<^verbatim>\<open>sb.ninodes\<close>\<close>

record dinode =
  d_type :: short
  d_major :: short
  d_minor :: short
  d_nlink :: short
  d_size :: uint
  d_addrs :: "nat \<Rightarrow> uint"
  d_indirect2 :: uint
  d_password :: "char list"

text \<open>
  The in-memory inode. \<open>ref\<close> and \<open>flags\<close> are C \<^verbatim>\<open>int\<close>s; \<open>addrs\<close> is the array
  \<^verbatim>\<open>addrs[NDIRECT+1]\<close>, \<open>password\<close> the array \<^verbatim>\<open>password[PASSLEN]\<close>; \<open>fsize\<close> is the field
  \<^verbatim>\<open>size\<close>.
\<close>

record inode =
  dev :: uint
  inum :: uint
  ref :: int
  flags :: int
  type :: short
  major :: short
  minor :: short
  nlink :: short
  fsize :: uint
  addrs :: "nat \<Rightarrow> uint"
  indirect2 :: uint
  password :: "char list"

definition I_BUSY :: int where
  "I_BUSY = 1"

definition I_VALID :: int where
  "I_VALID = 2"

definition T_DIR :: short where
  "T_DIR = 1"

definition T_FILE :: short where
  "T_FILE = 2"

definition T_DEV :: short where
  "T_DEV = 3"

definition T_SYMLINK :: short where
  "T_SYMLINK = 4"

definition ROOTDEV :: uint where
  "ROOTDEV = 1"

definition ROOTINO :: uint where
  "ROOTINO = 1"

text \<open>
  An entry of \<^verbatim>\<open>devsw\<close>. The handlers are outside the sources: a read handler gives the value it
  returns and the bytes it stores, a write handler the value it returns.
\<close>

record devsw_entry =
  dread :: "(inode \<Rightarrow> uint \<Rightarrow> int \<times> char list) option"
  dwrite :: "(inode \<Rightarrow> (nat \<Rightarrow> char) \<Rightarrow> uint \<Rightarrow> int) option"

text \<open>
  A \<^verbatim>\<open>struct inode*\<close> is the index of an entry of \<^verbatim>\<open>icache.inode\<close>; a pointer that may be null is
  an option. \<open>pids\<close> is \<^verbatim>\<open>unlocked_inodes.pids\<close>, \<open>pid\<close> and \<open>cwd\<close> are \<^verbatim>\<open>proc->pid\<close> and
  \<^verbatim>\<open>proc->cwd\<close>. Spinlocks guard against other processors and are left out.
\<close>

record fs =
  sb :: "uint \<Rightarrow> superblock"
  bitmap :: "uint \<Rightarrow> nat \<Rightarrow> block"
  dinodes :: "uint \<Rightarrow> uint \<Rightarrow> dinode"
  blocks :: "uint \<Rightarrow> uint \<Rightarrow> block"
  icache :: "nat \<Rightarrow> inode"
  pids :: "nat \<Rightarrow> nat \<Rightarrow> int"
  pid :: int
  cwd :: nat
  devsw :: "nat \<Rightarrow> devsw_entry"

section \<open>Blocks: \<^verbatim>\<open>bzero\<close>, \<^verbatim>\<open>balloc\<close>, \<^verbatim>\<open>bfree\<close>\<close>

definition bzero :: "fs \<Rightarrow> uint \<Rightarrow> uint \<Rightarrow> fs" where
  "bzero s dv bno = s\<lparr>blocks := (blocks s)(dv := (blocks s dv)(bno := zero_block))\<rparr>"

text \<open>
  The inner loop of \<^verbatim>\<open>balloc\<close>: the first \<open>bi\<close> from the given one with
  \<^verbatim>\<open>bi < BPB && b + bi < sb.size\<close> whose bit is clear in the bitmap block \<open>d\<close>.
\<close>

function balloc_bits :: "block \<Rightarrow> nat \<Rightarrow> nat \<Rightarrow> nat \<Rightarrow> nat option" where
  "balloc_bits d sz b bi =
     (if bi < BPB \<and> b + bi < sz then
        (if \<not> byte_test (d (bi div 8)) (bi mod 8) then Some bi
         else balloc_bits d sz b (bi + 1))
      else None)"
  by pat_completeness auto
termination
  by (relation "measure (\<lambda>(d, sz, b, bi). BPB - bi)") auto

declare balloc_bits.simps [simp del]

text \<open>The outer loop, over the bitmap blocks: \<^verbatim>\<open>for(b = 0; b < sb.size; b += BPB)\<close>.\<close>

function balloc_blocks :: "fs \<Rightarrow> uint \<Rightarrow> nat \<Rightarrow> error + uint \<times> fs" where
  "balloc_blocks s dv b =
     (if b < unat (sb_size (sb s dv)) then
        (let d = bitmap s dv (b div BPB) in
         case balloc_bits d (unat (sb_size (sb s dv))) b 0 of
           Some bi \<Rightarrow>
             let d' = d(bi div 8 := byte_set (d (bi div 8)) (bi mod 8));
                 s' = s\<lparr>bitmap := (bitmap s)(dv := (bitmap s dv)(b div BPB := d'))\<rparr>
             in Inr (word_of_nat (b + bi), bzero s' dv (word_of_nat (b + bi)))
         | None \<Rightarrow> balloc_blocks s dv (b + BPB))
      else Inl (Panic ''balloc: out of blocks''))"
  by pat_completeness auto
termination
  by (relation "measure (\<lambda>(s, dv, b). unat (sb_size (sb s dv)) - b)") (auto simp: BPB_def BSIZE_def)

declare balloc_blocks.simps [simp del]

definition balloc :: "fs \<Rightarrow> uint \<Rightarrow> error + uint \<times> fs" where
  "balloc s dv = balloc_blocks s dv 0"

definition bfree :: "fs \<Rightarrow> uint \<Rightarrow> uint \<Rightarrow> error + fs" where
  "bfree s dv b =
     (let d = bitmap s dv (unat b div BPB);
          bi = unat b mod BPB
      in if \<not> byte_test (d (bi div 8)) (bi mod 8) then Inl (Panic ''freeing free block'')
         else
           let d' = d(bi div 8 := byte_clear (d (bi div 8)) (bi mod 8))
           in Inr (s\<lparr>bitmap := (bitmap s)(dv := (bitmap s dv)(unat b div BPB := d'))\<rparr>))"

section \<open>Inodes\<close>

definition upd_inode :: "fs \<Rightarrow> nat \<Rightarrow> (inode \<Rightarrow> inode) \<Rightarrow> fs" where
  \<comment> \<open>a store to a field of \<^verbatim>\<open>*ip\<close>\<close>
  "upd_inode s ip f = s\<lparr>icache := (icache s)(ip := f (icache s ip))\<rparr>"

definition iupdate :: "fs \<Rightarrow> nat \<Rightarrow> fs" where
  "iupdate s ip =
     (let i = icache s ip;
          dip = \<lparr>d_type = type i, d_major = major i, d_minor = minor i, d_nlink = nlink i,
                 d_size = fsize i, d_addrs = addrs i, d_indirect2 = indirect2 i,
                 d_password = password i\<rparr>
      in s\<lparr>dinodes := (dinodes s)(dev i := (dinodes s (dev i))(inum i := dip))\<rparr>)"

text \<open>
  The loop of \<^verbatim>\<open>iget\<close> over the entries of the cache: \<open>Inl\<close> the entry that caches the inode,
  or else \<open>Inr\<close> the first empty entry, if any.
\<close>

fun iget_scan :: "(nat \<Rightarrow> inode) \<Rightarrow> uint \<Rightarrow> uint \<Rightarrow> nat list \<Rightarrow> nat option \<Rightarrow> nat + nat option" where
  "iget_scan c dv ino [] empty_ip = Inr empty_ip"
| "iget_scan c dv ino (ip # ips) empty_ip =
     (if ref (c ip) > 0 \<and> dev (c ip) = dv \<and> inum (c ip) = ino then Inl ip
      else iget_scan c dv ino ips
             (if empty_ip = None \<and> ref (c ip) = 0 then Some ip else empty_ip))"

definition iget :: "params \<Rightarrow> fs \<Rightarrow> uint \<Rightarrow> uint \<Rightarrow> error + nat \<times> fs" where
  "iget K s dv ino =
     (case iget_scan (icache s) dv ino [0 ..< NINODE K] None of
        Inl ip \<Rightarrow> Inr (ip, upd_inode s ip (\<lambda>i. i\<lparr>ref := ref i + 1\<rparr>))
      | Inr None \<Rightarrow> Inl (Panic ''iget: no inodes'')
      | Inr (Some ip) \<Rightarrow>
          Inr (ip, upd_inode s ip (\<lambda>i. i\<lparr>dev := dv, inum := ino, ref := 1, flags := 0\<rparr>)))"

definition idup :: "fs \<Rightarrow> nat \<Rightarrow> fs" where
  "idup s ip = upd_inode s ip (\<lambda>i. i\<lparr>ref := ref i + 1\<rparr>)"

text \<open>
  \<^verbatim>\<open>ilock\<close>. Its callers pass an entry of the cache, never the null pointer. While the inode is
  busy the caller sleeps.
\<close>

definition ilock :: "fs \<Rightarrow> nat \<Rightarrow> error + fs" where
  "ilock s ip =
     (if ref (icache s ip) < 1 then Inl (Panic ''ilock'')
      else if and (flags (icache s ip)) I_BUSY \<noteq> 0 then Inl Blocked
      else
        let s1 = upd_inode s ip (\<lambda>i. i\<lparr>flags := or (flags i) I_BUSY\<rparr>) in
        if and (flags (icache s1 ip)) I_VALID = 0 then
          let dip = dinodes s1 (dev (icache s1 ip)) (inum (icache s1 ip));
              s2 = upd_inode s1 ip (\<lambda>i. i\<lparr>type := d_type dip, major := d_major dip,
                     minor := d_minor dip, nlink := d_nlink dip, fsize := d_size dip,
                     addrs := d_addrs dip, indirect2 := d_indirect2 dip,
                     password := d_password dip, flags := or (flags i) I_VALID\<rparr>)
          in if type (icache s2 ip) = 0 then Inl (Panic ''ilock: no type'') else Inr s2
        else Inr s1)"

definition iunlock :: "fs \<Rightarrow> nat \<Rightarrow> error + fs" where
  "iunlock s ip =
     (if and (flags (icache s ip)) I_BUSY = 0 \<or> ref (icache s ip) < 1 then Inl (Panic ''iunlock'')
      else Inr (upd_inode s ip (\<lambda>i. i\<lparr>flags := and (flags i) (not I_BUSY)\<rparr>)))"

section \<open>Inode content: \<^verbatim>\<open>bmap\<close> and \<^verbatim>\<open>itrunc\<close>\<close>

text \<open>
  \<^verbatim>\<open>if((addr = a[i]) == 0){ a[i] = addr = balloc(ip->dev); log_write(bp); }\<close> where \<open>a\<close> is the
  data of the buffer of block \<open>blk\<close>: the entry is stored into the block as it is after the
  allocation.
\<close>

definition bmap_entry :: "fs \<Rightarrow> uint \<Rightarrow> uint \<Rightarrow> nat \<Rightarrow> error + uint \<times> fs" where
  "bmap_entry s dv blk i =
     (let addr = get32 (blocks s dv blk) i in
      if addr = 0 then
        (case balloc s dv of
           Inl e \<Rightarrow> Inl e
         | Inr (addr, s1) \<Rightarrow>
             Inr (addr, s1\<lparr>blocks := (blocks s1)(dv := (blocks s1 dv)(blk := set32 (blocks s1 dv blk) i addr))\<rparr>))
      else Inr (addr, s))"

text \<open>
  \<^verbatim>\<open>if((addr = ip->x) == 0) ip->x = addr = balloc(ip->dev);\<close> for a block number \<open>x\<close> kept in the
  inode: \<open>addr\<close> is its value and \<open>store\<close> the assignment to it.
\<close>

definition bmap_field :: "fs \<Rightarrow> nat \<Rightarrow> uint \<Rightarrow> (uint \<Rightarrow> inode \<Rightarrow> inode) \<Rightarrow> error + uint \<times> fs" where
  "bmap_field s ip addr store =
     (if addr = 0 then
        (case balloc s (dev (icache s ip)) of
           Inl e \<Rightarrow> Inl e
         | Inr (addr, s1) \<Rightarrow> Inr (addr, upd_inode s1 ip (store addr)))
      else Inr (addr, s))"

definition bmap :: "params \<Rightarrow> fs \<Rightarrow> nat \<Rightarrow> uint \<Rightarrow> error + uint \<times> fs" where
  "bmap K s ip bn =
     (let dv = dev (icache s ip) in
      if unat bn < NDIRECT K then
        bmap_field s ip (addrs (icache s ip) (unat bn))
          (\<lambda>addr i. i\<lparr>addrs := (addrs i)(unat bn := addr)\<rparr>)
      else
        let bn = bn - word_of_nat (NDIRECT K) in
        if unat bn < NINDIRECT then
          (case bmap_field s ip (addrs (icache s ip) (NDIRECT K))
                  (\<lambda>addr i. i\<lparr>addrs := (addrs i)(NDIRECT K := addr)\<rparr>) of
             Inl e \<Rightarrow> Inl e
           | Inr (addr, s1) \<Rightarrow> bmap_entry s1 dv addr (unat bn))
        else
          let bn = bn - word_of_nat NINDIRECT in
          if unat bn < NINDIRECT * NINDIRECT then
            (case bmap_field s ip (indirect2 (icache s ip)) (\<lambda>addr i. i\<lparr>indirect2 := addr\<rparr>) of
               Inl e \<Rightarrow> Inl e
             | Inr (addr, s1) \<Rightarrow>
                 (case bmap_entry s1 dv addr (unat bn div NINDIRECT) of
                    Inl e \<Rightarrow> Inl e
                  | Inr (addr, s2) \<Rightarrow> bmap_entry s2 dv addr (unat bn mod NINDIRECT)))
          else Inl (Panic ''bmap: out of range''))"

text \<open>\<^verbatim>\<open>for(i = 0; i < NDIRECT; i++) if(ip->addrs[i]){ bfree(...); ip->addrs[i] = 0; }\<close>\<close>

fun itrunc_direct :: "fs \<Rightarrow> nat \<Rightarrow> nat list \<Rightarrow> error + fs" where
  "itrunc_direct s ip [] = Inr s"
| "itrunc_direct s ip (i # is) =
     (if addrs (icache s ip) i \<noteq> 0 then
        (case bfree s (dev (icache s ip)) (addrs (icache s ip) i) of
           Inl e \<Rightarrow> Inl e
         | Inr s1 \<Rightarrow> itrunc_direct (upd_inode s1 ip (\<lambda>n. n\<lparr>addrs := (addrs n)(i := 0)\<rparr>)) ip is)
      else itrunc_direct s ip is)"

text \<open>
  \<^verbatim>\<open>for(j = 0; j < NINDIRECT; j++) if(a[j]) bfree(ip->dev, a[j]);\<close> where \<open>a\<close> is the data of the
  buffer of block \<open>blk\<close>.
\<close>

fun itrunc_entries :: "fs \<Rightarrow> uint \<Rightarrow> uint \<Rightarrow> nat list \<Rightarrow> error + fs" where
  "itrunc_entries s dv blk [] = Inr s"
| "itrunc_entries s dv blk (j # js) =
     (if get32 (blocks s dv blk) j \<noteq> 0 then
        (case bfree s dv (get32 (blocks s dv blk) j) of
           Inl e \<Rightarrow> Inl e
         | Inr s1 \<Rightarrow> itrunc_entries s1 dv blk js)
      else itrunc_entries s dv blk js)"

text \<open>The outer loop over the double-indirect block \<open>blk\<close>.\<close>

fun itrunc_double :: "fs \<Rightarrow> uint \<Rightarrow> uint \<Rightarrow> nat list \<Rightarrow> error + fs" where
  "itrunc_double s dv blk [] = Inr s"
| "itrunc_double s dv blk (i # is) =
     (if get32 (blocks s dv blk) i \<noteq> 0 then
        (case itrunc_entries s dv (get32 (blocks s dv blk) i) [0 ..< NINDIRECT] of
           Inl e \<Rightarrow> Inl e
         | Inr s1 \<Rightarrow>
             (case bfree s1 dv (get32 (blocks s1 dv blk) i) of
                Inl e \<Rightarrow> Inl e
              | Inr s2 \<Rightarrow> itrunc_double s2 dv blk is))
      else itrunc_double s dv blk is)"

definition itrunc :: "params \<Rightarrow> fs \<Rightarrow> nat \<Rightarrow> error + fs" where
  "itrunc K s ip =
     (let dv = dev (icache s ip) in
      case itrunc_direct s ip [0 ..< NDIRECT K] of
        Inl e \<Rightarrow> Inl e
      | Inr s1 \<Rightarrow>
          (case (if addrs (icache s1 ip) (NDIRECT K) \<noteq> 0 then
                   (case itrunc_entries s1 dv (addrs (icache s1 ip) (NDIRECT K)) [0 ..< NINDIRECT] of
                      Inl e \<Rightarrow> Inl e
                    | Inr s2 \<Rightarrow>
                        (case bfree s2 dv (addrs (icache s2 ip) (NDIRECT K)) of
                           Inl e \<Rightarrow> Inl e
                         | Inr s3 \<Rightarrow>
                             Inr (upd_inode s3 ip (\<lambda>n. n\<lparr>addrs := (addrs n)(NDIRECT K := 0)\<rparr>))))
                 else Inr s1) of
             Inl e \<Rightarrow> Inl e
           | Inr s4 \<Rightarrow>
               (case (if indirect2 (icache s4 ip) \<noteq> 0 then
                        (case itrunc_double s4 dv (indirect2 (icache s4 ip)) [0 ..< NINDIRECT] of
                           Inl e \<Rightarrow> Inl e
                         | Inr s5 \<Rightarrow>
                             (case bfree s5 dv (indirect2 (icache s5 ip)) of
                                Inl e \<Rightarrow> Inl e
                              | Inr s6 \<Rightarrow> Inr (upd_inode s6 ip (\<lambda>n. n\<lparr>indirect2 := 0\<rparr>))))
                      else Inr s4) of
                  Inl e \<Rightarrow> Inl e
                | Inr s7 \<Rightarrow> Inr (iupdate (upd_inode s7 ip (\<lambda>n. n\<lparr>fsize := 0\<rparr>)) ip))))"

definition iput :: "params \<Rightarrow> fs \<Rightarrow> nat \<Rightarrow> error + fs" where
  "iput K s ip =
     (if ref (icache s ip) = 1 \<and> and (flags (icache s ip)) I_VALID \<noteq> 0 \<and> nlink (icache s ip) = 0 then
        (if and (flags (icache s ip)) I_BUSY \<noteq> 0 then Inl (Panic ''iput busy'')
         else
           case itrunc K (upd_inode s ip (\<lambda>i. i\<lparr>flags := or (flags i) I_BUSY\<rparr>)) ip of
             Inl e \<Rightarrow> Inl e
           | Inr s1 \<Rightarrow>
               let s2 = iupdate (upd_inode s1 ip (\<lambda>i. i\<lparr>type := 0\<rparr>)) ip;
                   s3 = upd_inode s2 ip (\<lambda>i. i\<lparr>flags := 0\<rparr>)
               in Inr (upd_inode s3 ip (\<lambda>i. i\<lparr>ref := ref i - 1\<rparr>)))
      else Inr (upd_inode s ip (\<lambda>i. i\<lparr>ref := ref i - 1\<rparr>)))"

definition iunlockput :: "params \<Rightarrow> fs \<Rightarrow> nat \<Rightarrow> error + fs" where
  "iunlockput K s ip = (case iunlock s ip of Inl e \<Rightarrow> Inl e | Inr s1 \<Rightarrow> iput K s1 ip)"

section \<open>File content: \<^verbatim>\<open>readi\<close> and \<^verbatim>\<open>writei\<close>\<close>

text \<open>
  The loop of \<^verbatim>\<open>readi\<close>. The bytes stored through \<open>dst\<close> are collected in a list, in the order
  of the addresses.
\<close>

lemma io_loop_measure:
  fixes n tot off :: uint
  assumes "tot < n"
  shows "unat (n - (tot + min (n - tot) (512 - off mod 512))) < unat (n - tot)"
proof -
  have "off mod 512 < 512"
    by (simp add: word_mod_less_divisor)
  then have "0 < 512 - off mod 512"
    by unat_arith
  moreover have "0 < n - tot"
    using assms by unat_arith
  ultimately have m: "0 < min (n - tot) (512 - off mod 512)"
    by (simp add: min_def)
  have le: "min (n - tot) (512 - off mod 512) \<le> n - tot"
    by simp
  have "n - (tot + min (n - tot) (512 - off mod 512))
        = (n - tot) - min (n - tot) (512 - off mod 512)"
    by simp
  also have "unat \<dots> = unat (n - tot) - unat (min (n - tot) (512 - off mod 512))"
    using le by (simp add: unat_sub)
  finally show ?thesis
    using m le by (simp add: word_less_nat_alt word_le_nat_alt)
qed

function readi_loop :: "params \<Rightarrow> fs \<Rightarrow> nat \<Rightarrow> uint \<Rightarrow> uint \<Rightarrow> uint \<Rightarrow> char list
                         \<Rightarrow> error + char list \<times> fs" where
  "readi_loop K s ip off n tot dst =
     (if tot < n then
        (case bmap K s ip (off div word_of_nat BSIZE) of
           Inl e \<Rightarrow> Inl e
         | Inr (b, s1) \<Rightarrow>
             let bp = blocks s1 (dev (icache s1 ip)) b;
                 m = min (n - tot) (word_of_nat BSIZE - off mod word_of_nat BSIZE);
                 bo = unat (off mod word_of_nat BSIZE)
             in readi_loop K s1 ip (off + m) n (tot + m) (dst @ map bp [bo ..< bo + unat m]))
      else Inr (dst, s))"
  by pat_completeness auto
termination
  by (relation "measure (\<lambda>(K, s, ip, off, n, tot, dst). unat (n - tot))")
    (auto simp: BSIZE_def io_loop_measure)

declare readi_loop.simps [simp del]

text \<open>
  \<^verbatim>\<open>readi\<close> gives the value returned, the bytes stored through \<open>dst\<close>, and the state:
  \<^verbatim>\<open>bmap\<close> allocates a block that is not mapped yet.
\<close>

definition readi :: "params \<Rightarrow> fs \<Rightarrow> nat \<Rightarrow> uint \<Rightarrow> uint \<Rightarrow> error + int \<times> char list \<times> fs" where
  "readi K s ip off n =
     (let i = icache s ip in
      if type i = T_DEV then
        (if sint (major i) < 0 \<or> sint (major i) \<ge> int (NDEV K) then Inr (- 1, [], s)
         else
           case dread (devsw s (nat (sint (major i)))) of
             None \<Rightarrow> Inr (- 1, [], s)
           | Some rd \<Rightarrow> Inr (fst (rd i n), snd (rd i n), s))
      else if off > fsize i \<or> off + n < off then Inr (- 1, [], s)
      else
        let n = (if off + n > fsize i then fsize i - off else n) in
        case readi_loop K s ip off n 0 [] of
          Inl e \<Rightarrow> Inl e
        | Inr (dst, s1) \<Rightarrow> Inr (sint n, dst, s1))"

text \<open>The loop of \<^verbatim>\<open>writei\<close>; \<open>src\<close> is the memory from the pointer on. It gives the final \<open>off\<close>.\<close>

function writei_loop :: "params \<Rightarrow> fs \<Rightarrow> nat \<Rightarrow> (nat \<Rightarrow> char) \<Rightarrow> uint \<Rightarrow> uint \<Rightarrow> uint
                          \<Rightarrow> error + uint \<times> fs" where
  "writei_loop K s ip src off n tot =
     (if tot < n then
        (case bmap K s ip (off div word_of_nat BSIZE) of
           Inl e \<Rightarrow> Inl e
         | Inr (b, s1) \<Rightarrow>
             let dv = dev (icache s1 ip);
                 bp = blocks s1 dv b;
                 m = min (n - tot) (word_of_nat BSIZE - off mod word_of_nat BSIZE);
                 bo = unat (off mod word_of_nat BSIZE);
                 bp' = (\<lambda>j. if bo \<le> j \<and> j < bo + unat m then src (unat tot + (j - bo)) else bp j);
                 s2 = s1\<lparr>blocks := (blocks s1)(dv := (blocks s1 dv)(b := bp'))\<rparr>
             in writei_loop K s2 ip src (off + m) n (tot + m))
      else Inr (off, s))"
  by pat_completeness auto
termination
  by (relation "measure (\<lambda>(K, s, ip, src, off, n, tot). unat (n - tot))")
    (auto simp: BSIZE_def io_loop_measure)

declare writei_loop.simps [simp del]

definition writei :: "params \<Rightarrow> fs \<Rightarrow> nat \<Rightarrow> (nat \<Rightarrow> char) \<Rightarrow> uint \<Rightarrow> uint \<Rightarrow> error + int \<times> fs" where
  "writei K s ip src off n =
     (let i = icache s ip in
      if type i = T_DEV then
        (if sint (major i) < 0 \<or> sint (major i) \<ge> int (NDEV K) then Inr (- 1, s)
         else
           case dwrite (devsw s (nat (sint (major i)))) of
             None \<Rightarrow> Inr (- 1, s)
           | Some wr \<Rightarrow> Inr (wr i src n, s))
      else if off > fsize i \<or> off + n < off then Inr (- 1, s)
      else if unat (off + n) > MAXFILE K * BSIZE then Inr (- 1, s)
      else
        case writei_loop K s ip src off n 0 of
          Inl e \<Rightarrow> Inl e
        | Inr (off', s1) \<Rightarrow>
            if n > 0 \<and> off' > fsize (icache s1 ip) then
              Inr (sint n, iupdate (upd_inode s1 ip (\<lambda>i. i\<lparr>fsize := off'\<rparr>)) ip)
            else Inr (sint n, s1))"

section \<open>What the block map leaves alone\<close>

text \<open>
  The state without the free bitmap, the data blocks and the block maps of the cached inodes:
  \<^verbatim>\<open>balloc\<close> and \<^verbatim>\<open>bmap\<close> change nothing else.
\<close>

definition frame :: "fs \<Rightarrow> fs" where
  "frame s = s\<lparr>bitmap := (\<lambda>d p. zero_block), blocks := (\<lambda>d b. zero_block),
               icache := (\<lambda>i. (icache s i)\<lparr>addrs := (\<lambda>j. 0), indirect2 := 0\<rparr>)\<rparr>"

lemma frame_bzero: "frame (bzero s dv b) = frame s"
  by (simp add: frame_def bzero_def)

lemma frame_bitmap: "frame (s\<lparr>bitmap := x\<rparr>) = frame s"
  by (simp add: frame_def)

lemma frame_blocks: "frame (s\<lparr>blocks := x\<rparr>) = frame s"
  by (simp add: frame_def)

lemma frame_upd_addrs: "frame (upd_inode s ip (\<lambda>i. i\<lparr>addrs := f i\<rparr>)) = frame s"
  by (auto simp: frame_def upd_inode_def fun_eq_iff)

lemma frame_upd_indirect2: "frame (upd_inode s ip (\<lambda>i. i\<lparr>indirect2 := f i\<rparr>)) = frame s"
  by (auto simp: frame_def upd_inode_def fun_eq_iff)

lemma frame_balloc_blocks: "balloc_blocks s dv b = Inr (a, s') \<Longrightarrow> frame s' = frame s"
proof (induction s dv b rule: balloc_blocks.induct)
  case (1 s dv b)
  show ?case
  proof (cases "b < unat (sb_size (sb s dv))")
    case False
    then show ?thesis using "1.prems" by (simp add: balloc_blocks.simps [of s dv b])
  next
    case True
    show ?thesis
    proof (cases "balloc_bits (bitmap s dv (b div BPB)) (unat (sb_size (sb s dv))) b 0")
      case None
      then have "balloc_blocks s dv (b + BPB) = Inr (a, s')"
        using "1.prems" True by (simp add: balloc_blocks.simps [of s dv b])
      then show ?thesis using "1.IH" [OF True refl None] by simp
    next
      case (Some bi)
      then show ?thesis
        using "1.prems" True
        by (auto simp: balloc_blocks.simps [of s dv b] Let_def frame_bzero frame_bitmap)
    qed
  qed
qed

lemma frame_balloc: "balloc s dv = Inr (a, s') \<Longrightarrow> frame s' = frame s"
  by (simp add: balloc_def frame_balloc_blocks)

lemma frame_bmap_entry: "bmap_entry s dv blk i = Inr (a, s') \<Longrightarrow> frame s' = frame s"
  by (auto simp: bmap_entry_def Let_def frame_blocks split: if_splits sum.splits dest: frame_balloc)

lemma frame_bmap_field:
  assumes "bmap_field s ip addr store = Inr (a, s')"
    and "\<And>s1 a. frame (upd_inode s1 ip (store a)) = frame s1"
  shows "frame s' = frame s"
  using assms by (auto simp: bmap_field_def split: if_splits sum.splits dest: frame_balloc)

lemma frame_bmap: "bmap K s ip bn = Inr (a, s') \<Longrightarrow> frame s' = frame s"
proof -
  assume b: "bmap K s ip bn = Inr (a, s')"
  have f1: "\<And>s0 a0 ip0 addr store s1. bmap_field s0 ip0 addr (\<lambda>addr i. i\<lparr>addrs := (addrs i)(store := addr)\<rparr>) = Inr (a0, s1) \<Longrightarrow> frame s1 = frame s0"
    by (erule frame_bmap_field) (rule frame_upd_addrs)
  have f2: "\<And>s0 a0 ip0 addr s1. bmap_field s0 ip0 addr (\<lambda>addr i. i\<lparr>indirect2 := addr\<rparr>) = Inr (a0, s1) \<Longrightarrow> frame s1 = frame s0"
    by (erule frame_bmap_field) (rule frame_upd_indirect2)
  show ?thesis
    using b unfolding bmap_def Let_def
    by (auto split: if_splits sum.splits dest!: f1 f2 frame_bmap_entry)
qed

lemma frame_readi_loop:
  "readi_loop K s ip off n tot dst = Inr (dst', s') \<Longrightarrow> frame s' = frame s"
proof (induction K s ip off n tot dst rule: readi_loop.induct)
  case (1 K s ip off n tot dst)
  show ?case
  proof (cases "tot < n")
    case False
    then show ?thesis using "1.prems" by (simp add: readi_loop.simps [of K s ip off n tot dst])
  next
    case True
    obtain b s1 where b: "bmap K s ip (off div word_of_nat BSIZE) = Inr (b, s1)"
      using "1.prems" True
      by (auto simp: readi_loop.simps [of K s ip off n tot dst] split: sum.splits)
    have "frame s' = frame s1"
      using "1.IH" [OF True b refl refl refl refl] "1.prems" True b
      by (simp add: readi_loop.simps [of K s ip off n tot dst] Let_def)
    then show ?thesis using frame_bmap [OF b] by simp
  qed
qed

lemma frame_readi: "readi K s ip off n = Inr (r, dst, s') \<Longrightarrow> frame s' = frame s"
  by (auto simp: readi_def Let_def split: if_splits sum.splits option.splits
      dest: frame_readi_loop)

lemma frame_type: "frame s' = frame s \<Longrightarrow> type (icache s' i) = type (icache s i)"
proof -
  assume "frame s' = frame s"
  then have "type (icache (frame s') i) = type (icache (frame s) i)" by simp
  then show ?thesis by (simp add: frame_def)
qed

lemma frame_fsize: "frame s' = frame s \<Longrightarrow> fsize (icache s' i) = fsize (icache s i)"
proof -
  assume "frame s' = frame s"
  then have "fsize (icache (frame s') i) = fsize (icache (frame s) i)" by simp
  then show ?thesis by (simp add: frame_def)
qed

lemma sint_nat:
  fixes w :: uint
  assumes "sint w = int d"
  shows "unat w = d"
proof -
  have "sint w < 2 ^ (LENGTH(32) - 1)"
    by (rule sint_lt)
  then have d: "d < 2 ^ 31"
    using assms by simp
  have "w = word_of_int (sint w)"
    by simp
  then have "w = of_nat d"
    using assms by simp
  then show ?thesis
    using d by (simp add: unat_of_nat)
qed

text \<open>A read of \<open>d\<close> bytes that returns \<open>d\<close> lies within the file.\<close>

lemma readi_full:
  assumes "type (icache s ip) \<noteq> T_DEV" and "0 < d"
    and "readi K s ip off (word_of_nat d) = Inr (int d, de, s')"
  shows "unat off + d \<le> unat (fsize (icache s ip))"
proof -
  let ?n = "word_of_nat d :: uint"
  let ?sz = "fsize (icache s ip)"
  let ?n' = "if off + ?n > ?sz then ?sz - off else ?n"
  have g: "\<not> ?sz < off" "\<not> off + ?n < off" and r: "sint ?n' = int d"
    using assms by (auto simp: readi_def Let_def split: if_splits sum.splits)
  have u: "unat ?n' = d"
    using r by (rule sint_nat)
  show ?thesis
  proof (cases "off + ?n > ?sz")
    case True
    then have "unat (?sz - off) = d" using u by simp
    moreover have "unat (?sz - off) = unat ?sz - unat off"
      using g(1) by (simp add: unat_sub not_less)
    moreover have "unat off \<le> unat ?sz"
      using g(1) by (simp add: not_less word_le_nat_alt)
    ultimately show ?thesis by simp
  next
    case False
    then have "unat ?n = d" using u by simp
    moreover have "unat (off + ?n) = unat off + unat ?n"
      using g(2) by (simp add: not_less unat_plus_simple)
    moreover have "unat (off + ?n) \<le> unat ?sz"
      using False by (simp add: not_less word_le_nat_alt)
    ultimately show ?thesis by simp
  qed
qed

section \<open>Directories\<close>

text \<open>
  Modelled from the spec: \<^verbatim>\<open>string.c\<close> is missing. \<^verbatim>\<open>strncmp(p, q, n)\<close> compares at most \<open>n\<close> bytes
  and stops at the first NUL or difference, giving the difference of the two bytes as unsigned
  values (the spec: name comparison is fixed-length, names are compared only up to the
  maximum name length).
\<close>

fun strncmp :: "string \<Rightarrow> string \<Rightarrow> nat \<Rightarrow> int" where
  "strncmp p q 0 = 0"
| "strncmp p q (Suc n) =
     (if peek p \<noteq> NUL \<and> peek p = peek q then strncmp (tl p) (tl q) n
      else int (of_char (peek p)) - int (of_char (peek q)))"

definition namecmp :: "params \<Rightarrow> string \<Rightarrow> string \<Rightarrow> int" where
  "namecmp K s t = strncmp s t (DIRSIZ K)"

text \<open>
  Modelled from the spec: \<^verbatim>\<open>struct dirent\<close> is missing. A directory entry is a fixed-size pair of
  an inode number and a name: a 16-bit \<open>inum\<close>, low byte first, then the \<open>DIRSIZ\<close> bytes of
  \<open>name\<close>.
\<close>

definition DESIZE :: "params \<Rightarrow> nat" where
  \<comment> \<open>\<^verbatim>\<open>sizeof(de)\<close>\<close>
  "DESIZE K = 2 + DIRSIZ K"

definition de_inum :: "char list \<Rightarrow> uint" where
  "de_inum de = word_of_nat (of_char (de ! 0) + 256 * of_char (de ! 1))"

definition de_name :: "params \<Rightarrow> char list \<Rightarrow> char list" where
  "de_name K de = take (DIRSIZ K) (drop 2 de)"

text \<open>
  \<^verbatim>\<open>dirlookup\<close>, from the offset \<open>off\<close> on: \<^verbatim>\<open>dirlookup\<close> itself starts at 0. It gives the inode
  found, or the null pointer, and the offset stored through \<open>poff\<close> when there is one. The
  test of the type is made again at each round, where it cannot fail any more, since nothing
  in the loop changes the type; the value \<^verbatim>\<open>readi\<close> returns is compared with \<^verbatim>\<open>sizeof(de)\<close> as a
  number.
\<close>

function dirlookup_from :: "params \<Rightarrow> fs \<Rightarrow> nat \<Rightarrow> string \<Rightarrow> uint
                             \<Rightarrow> error + nat option \<times> uint \<times> fs" where
  "dirlookup_from K s dp name off =
     (if type (icache s dp) \<noteq> T_DIR then Inl (Panic ''dirlookup not DIR'')
      else if off < fsize (icache s dp) then
        (case readi K s dp off (word_of_nat (DESIZE K)) of
           Inl e \<Rightarrow> Inl e
         | Inr (r, de, s1) \<Rightarrow>
             if r \<noteq> int (DESIZE K) then Inl (Panic ''dirlink read'')
             else if de_inum de = 0 then
               dirlookup_from K s1 dp name (off + word_of_nat (DESIZE K))
             else if namecmp K name (de_name K de) = 0 then
               (case iget K s1 (dev (icache s1 dp)) (de_inum de) of
                  Inl e \<Rightarrow> Inl e
                | Inr (ip, s2) \<Rightarrow> Inr (Some ip, off, s2))
             else dirlookup_from K s1 dp name (off + word_of_nat (DESIZE K)))
      else Inr (None, off, s))"
  by pat_completeness auto

lemma dirlookup_measure:
  assumes "type (icache s dp) = T_DIR"
    and "readi K s dp off (word_of_nat (DESIZE K)) = Inr (int (DESIZE K), de, s1)"
    and "off < fsize (icache s dp)"
  shows "unat (fsize (icache s1 dp)) - unat (off + word_of_nat (DESIZE K))
         < unat (fsize (icache s dp)) - unat off"
proof -
  have nd: "type (icache s dp) \<noteq> T_DEV"
    using assms(1) by (simp add: T_DIR_def T_DEV_def)
  have pos: "0 < DESIZE K"
    by (simp add: DESIZE_def)
  have le: "unat off + DESIZE K \<le> unat (fsize (icache s dp))"
    using readi_full [OF nd pos assms(2)] .
  have "unat (fsize (icache s dp)) < 2 ^ 32"
    using unsigned_less [of "fsize (icache s dp)", where 'a = nat] by simp
  then have "unat (off + word_of_nat (DESIZE K) :: uint) = unat off + DESIZE K"
    using le by (simp add: unat_word_ariths unat_of_nat)
  moreover have "fsize (icache s1 dp) = fsize (icache s dp)"
    using frame_readi [OF assms(2)] by (rule frame_fsize)
  ultimately show ?thesis
    using le pos by simp
qed

termination dirlookup_from
  by (relation "measure (\<lambda>(K, s, dp, name, off). unat (fsize (icache s dp)) - unat off)")
    (auto simp: dirlookup_measure)

declare dirlookup_from.simps [simp del]

definition dirlookup :: "params \<Rightarrow> fs \<Rightarrow> nat \<Rightarrow> string \<Rightarrow> error + nat option \<times> uint \<times> fs" where
  "dirlookup K s dp name = dirlookup_from K s dp name 0"

section \<open>Paths: \<^verbatim>\<open>namex\<close>\<close>

lemma length_skip_slashes: "length (skip_slashes p) \<le> length p"
  by (induction p) auto

lemma length_skip_name: "length (skip_name p) \<le> length p"
  by (induction p) auto

lemma skip_name_shorter: "peek p \<noteq> NUL \<Longrightarrow> peek p \<noteq> SLASH \<Longrightarrow> length (skip_name p) < length p"
  using length_skip_name [of "tl p"] by (cases p) (auto simp: peek_def)

lemma skipelem_shorter: "skipelem K path name = Some (path', name') \<Longrightarrow> length path' < length path"
proof -
  assume a: "skipelem K path name = Some (path', name')"
  then have nz: "peek (skip_slashes path) \<noteq> NUL" and p: "path' = skip_slashes (skip_name (skip_slashes path))"
    by (auto simp: skipelem_def Let_def split: if_splits)
  have ns: "peek (skip_slashes path) \<noteq> SLASH"
    by (induction path) (auto simp: peek_def NUL_def SLASH_def)
  have "length path' \<le> length (skip_name (skip_slashes path))"
    using p length_skip_slashes by simp
  also have "\<dots> < length (skip_slashes path)"
    using nz ns by (rule skip_name_shorter)
  also have "\<dots> \<le> length path"
    by (rule length_skip_slashes)
  finally show ?thesis .
qed

text \<open>
  The loop of \<^verbatim>\<open>namex\<close>. It gives the inode, or the null pointer, the bytes of the buffer \<open>name\<close>
  and the state.
\<close>

function namex_loop :: "params \<Rightarrow> fs \<Rightarrow> nat \<Rightarrow> string \<Rightarrow> bool \<Rightarrow> char list
                         \<Rightarrow> error + nat option \<times> char list \<times> fs" where
  "namex_loop K s ip path nameiparent name =
     (case skipelem K path name of
        None \<Rightarrow>
          (if nameiparent then
             (case iput K s ip of Inl e \<Rightarrow> Inl e | Inr s1 \<Rightarrow> Inr (None, name, s1))
           else Inr (Some ip, name, s))
      | Some (path', name') \<Rightarrow>
          (case ilock s ip of
             Inl e \<Rightarrow> Inl e
           | Inr s1 \<Rightarrow>
               if type (icache s1 ip) \<noteq> T_DIR then
                 (case iunlockput K s1 ip of Inl e \<Rightarrow> Inl e | Inr s2 \<Rightarrow> Inr (None, name', s2))
               else if nameiparent \<and> peek path' = NUL then
                 (case iunlock s1 ip of Inl e \<Rightarrow> Inl e | Inr s2 \<Rightarrow> Inr (Some ip, name', s2))
               else
                 (case dirlookup K s1 ip name' of
                    Inl e \<Rightarrow> Inl e
                  | Inr (None, off, s2) \<Rightarrow>
                      (case iunlockput K s2 ip of Inl e \<Rightarrow> Inl e | Inr s3 \<Rightarrow> Inr (None, name', s3))
                  | Inr (Some next, off, s2) \<Rightarrow>
                      (case iunlockput K s2 ip of
                         Inl e \<Rightarrow> Inl e
                       | Inr s3 \<Rightarrow> namex_loop K s3 next path' nameiparent name'))))"
  by pat_completeness auto
termination
  by (relation "measure (\<lambda>(K, s, ip, path, nameiparent, name). length path)")
    (auto simp: skipelem_shorter)

declare namex_loop.simps [simp del]

definition namex :: "params \<Rightarrow> fs \<Rightarrow> string \<Rightarrow> bool \<Rightarrow> char list
                      \<Rightarrow> error + nat option \<times> char list \<times> fs" where
  "namex K s path nameiparent name =
     (if peek path = SLASH then
        (case iget K s ROOTDEV ROOTINO of
           Inl e \<Rightarrow> Inl e
         | Inr (ip, s1) \<Rightarrow> namex_loop K s1 ip path nameiparent name)
      else namex_loop K (idup s (cwd s)) (cwd s) path nameiparent name)"

text \<open>
  \<^verbatim>\<open>namei\<close> has the buffer \<^verbatim>\<open>name[DIRSIZ]\<close> of its own. Nothing reads a byte of it that
  \<^verbatim>\<open>skipelem\<close> has not stored, so the bytes it starts with do not matter.
\<close>

definition namei :: "params \<Rightarrow> fs \<Rightarrow> string \<Rightarrow> error + nat option \<times> fs" where
  "namei K s path =
     (case namex K s path False (replicate (DIRSIZ K) NUL) of
        Inl e \<Rightarrow> Inl e
      | Inr (ip, name, s1) \<Rightarrow> Inr (ip, s1))"

definition nameiparent :: "params \<Rightarrow> fs \<Rightarrow> string \<Rightarrow> char list
                            \<Rightarrow> error + nat option \<times> char list \<times> fs" where
  "nameiparent K s path name = namex K s path True name"

section \<open>Canonical paths: \<^verbatim>\<open>filereadlink\<close> and \<^verbatim>\<open>filereadlinki\<close>\<close>

definition MAX_SYMLINK_LOOPS :: nat where
  "MAX_SYMLINK_LOOPS = 16"

text \<open>
  The local arrays \<^verbatim>\<open>origpath\<close>, \<^verbatim>\<open>result\<close> and \<^verbatim>\<open>name\<close> are lists of their bytes. An access past the
  end of an array is \<open>Undefined\<close>.

  \<open>cstr buf off\<close> is the string read at \<^verbatim>\<open>&buf[off]\<close>; it must end inside the array.
  \<open>poke buf i c\<close> is \<^verbatim>\<open>buf[i] = c\<close>, and \<open>store buf off xs\<close> stores the bytes \<open>xs\<close> from
  \<^verbatim>\<open>&buf[off]\<close> on.
\<close>

definition cstr :: "char list \<Rightarrow> nat \<Rightarrow> error + string" where
  "cstr buf off =
     (if NUL \<in> set (drop off buf) then Inr (takeWhile (\<lambda>c. c \<noteq> NUL) (drop off buf))
      else Inl Undefined)"

definition poke :: "char list \<Rightarrow> int \<Rightarrow> char \<Rightarrow> error + char list" where
  "poke buf i c = (if 0 \<le> i \<and> i < int (length buf) then Inr (buf[nat i := c]) else Inl Undefined)"

definition store :: "char list \<Rightarrow> int \<Rightarrow> char list \<Rightarrow> error + char list" where
  "store buf off xs =
     (if 0 \<le> off \<and> off + int (length xs) \<le> int (length buf)
      then Inr (take (nat off) buf @ xs @ drop (nat off + length xs) buf)
      else Inl Undefined)"

text \<open>
  Modelled from the spec: \<^verbatim>\<open>string.c\<close> is missing. \<^verbatim>\<open>safestrcpy(s, t, n)\<close> copies the string \<open>t\<close>,
  cut to \<open>n - 1\<close> bytes, and ends it with NUL; \<^verbatim>\<open>strncpy(s, t, n)\<close> copies \<open>t\<close>, cut to \<open>n\<close>
  bytes, and fills the rest of the \<open>n\<close> bytes with NUL. Both are given by the bytes they store
  through \<open>s\<close>; \<open>t\<close> is the string without its terminator.
\<close>

definition safestrcpy :: "string \<Rightarrow> nat \<Rightarrow> char list" where
  "safestrcpy t n = (if n = 0 then [] else take (n - 1) t @ [NUL])"

definition strncpy :: "string \<Rightarrow> nat \<Rightarrow> char list" where
  "strncpy t n = take n t @ replicate (n - length t) NUL"

text \<open>
  The string in \<^verbatim>\<open>name[DIRSIZ+1]\<close> after \<^verbatim>\<open>skipelem\<close>. No statement ever stores to \<^verbatim>\<open>name[DIRSIZ]\<close>,
  so a read that finds no NUL in the first \<open>DIRSIZ\<close> bytes runs into a byte that was never
  set.
\<close>

definition cstr_name :: "params \<Rightarrow> char list \<Rightarrow> error + string" where
  "cstr_name K name =
     (if NUL \<in> set (take (DIRSIZ K) name) then Inr (takeWhile (\<lambda>c. c \<noteq> NUL) name)
      else Inl Undefined)"

text \<open>
  One pass of the \<^verbatim>\<open>for(;;)\<close> loop ends with a \<^verbatim>\<open>return\<close>, which gives the value returned and the
  bytes stored through \<open>buf\<close>, or with \<^verbatim>\<open>goto restart\<close>, which keeps the three arrays.
\<close>

datatype walk = Return int "char list" | Restart "char list" "char list" "char list"

text \<open>
  The substitution of a symbolic link met before the last element; \<open>off0\<close> is \<open>result_off\<close>
  after \<^verbatim>\<open>result_off -= strlen(name)\<close> and \<open>rest\<close> the string at \<open>origpath_p\<close>. It gives the
  arrays \<open>origpath\<close> and \<open>result\<close>.
\<close>

definition subst_inner :: "params \<Rightarrow> fs \<Rightarrow> nat \<Rightarrow> char list \<Rightarrow> char list \<Rightarrow> nat \<Rightarrow> string
                            \<Rightarrow> error + (char list \<times> char list) \<times> fs" where
  "subst_inner K s ip origpath result off0 rest =
     (case readi K s ip 0 (word_of_nat (MAXPATH K)) of
        Inl e \<Rightarrow> Inl e
      | Inr (l, bs, s1) \<Rightarrow>
     (case store result (int off0) bs of
        Inl e \<Rightarrow> Inl e
      | Inr result1 \<Rightarrow>
     (case iunlock s1 ip of
        Inl e \<Rightarrow> Inl e
      | Inr s2 \<Rightarrow>
     (case poke result1 (int off0 + l) SLASH of
        Inl e \<Rightarrow> Inl e
      | Inr result2 \<Rightarrow>
     (case store result2 (int off0 + l + 1) (safestrcpy rest (MAXPATH K)) of
        Inl e \<Rightarrow> Inl e
      | Inr result3 \<Rightarrow>
     (case cstr result3 (if result3 ! off0 = SLASH then off0 else 0) of
        Inl e \<Rightarrow> Inl e
      | Inr src \<Rightarrow>
     (case store origpath 0 (safestrcpy src (MAXPATH K)) of
        Inl e \<Rightarrow> Inl e
      | Inr origpath1 \<Rightarrow> Inr ((origpath1, result3), s2))))))))"

text \<open>
  The substitution of a symbolic link that is the last element (\<^verbatim>\<open>filereadlink\<close> only);
  \<open>off0\<close> is \<open>result_off\<close> before the name was appended.
\<close>

definition subst_last :: "params \<Rightarrow> fs \<Rightarrow> nat \<Rightarrow> char list \<Rightarrow> char list \<Rightarrow> nat
                           \<Rightarrow> error + (char list \<times> char list) \<times> fs" where
  "subst_last K s ip origpath result off0 =
     (case readi K s ip 0 (word_of_nat (MAXPATH K)) of
        Inl e \<Rightarrow> Inl e
      | Inr (l, bs, s1) \<Rightarrow>
     (case store origpath 0 bs of
        Inl e \<Rightarrow> Inl e
      | Inr origpath1 \<Rightarrow>
     (case iunlock s1 ip of
        Inl e \<Rightarrow> Inl e
      | Inr s2 \<Rightarrow>
     (case poke origpath1 l NUL of
        Inl e \<Rightarrow> Inl e
      | Inr origpath2 \<Rightarrow>
          if origpath2 ! 0 \<noteq> SLASH then
            (case cstr origpath2 0 of
               Inl e \<Rightarrow> Inl e
             | Inr src \<Rightarrow>
            (case store result (int off0) (safestrcpy src (MAXPATH K)) of
               Inl e \<Rightarrow> Inl e
             | Inr result1 \<Rightarrow>
            (case cstr result1 0 of
               Inl e \<Rightarrow> Inl e
             | Inr src' \<Rightarrow>
            (case store origpath2 0 (safestrcpy src' (MAXPATH K)) of
               Inl e \<Rightarrow> Inl e
             | Inr origpath3 \<Rightarrow> Inr ((origpath3, result1), s2)))))
          else Inr ((origpath2, result), s2)))))"

text \<open>
  One round of the \<^verbatim>\<open>for(;;)\<close> loop of both functions; they differ in the branch of the last
  element only, and \<open>deref\<close> tells \<^verbatim>\<open>filereadlink\<close> (true) from \<^verbatim>\<open>filereadlinki\<close>.
  \<open>origpath_p\<close> is the string at that pointer. The round leaves the loop (\<open>Inl\<close>) or goes on
  to the next round (\<open>Inr\<close>) with new values of \<open>origpath_p\<close>, \<open>name\<close>, \<open>result\<close> and
  \<open>result_off\<close>.
\<close>

definition walk_step :: "params \<Rightarrow> bool \<Rightarrow> fs \<Rightarrow> char list \<Rightarrow> string \<Rightarrow> char list \<Rightarrow> char list
                          \<Rightarrow> nat \<Rightarrow> int
                          \<Rightarrow> error + (walk + string \<times> char list \<times> char list \<times> nat) \<times> fs" where
  "walk_step K deref s origpath origpath_p name result result_off bufsiz =
     (case skipelem K origpath_p name of
        None \<Rightarrow> Inr (Inl (Return (- 1) []), s)
      | Some (origpath_p', name') \<Rightarrow>
     (case cstr_name K name' of
        Inl e \<Rightarrow> Inl e
      | Inr nm \<Rightarrow>
     (case store result (int result_off) (safestrcpy nm (MAXPATH K)) of
        Inl e \<Rightarrow> Inl e
      | Inr result1 \<Rightarrow>
     (case poke result1 (int (result_off + length nm)) NUL of
        Inl e \<Rightarrow> Inl e
      | Inr result2 \<Rightarrow>
     (case cstr result2 0 of
        Inl e \<Rightarrow> Inl e
      | Inr rpath \<Rightarrow>
          if peek origpath_p' = NUL \<and> \<not> deref then
            (if bufsiz < int (result_off + length nm) + 1 then Inr (Inl (Return (- 1) []), s)
             else Inr (Inl (Return (int (result_off + length nm)) (safestrcpy rpath (MAXPATH K))), s))
          else
            (case namei K s rpath of
               Inl e \<Rightarrow> Inl e
             | Inr (None, s1) \<Rightarrow> Inr (Inl (Return (- 1) []), s1)
             | Inr (Some ip, s1) \<Rightarrow>
            (case ilock s1 ip of
               Inl e \<Rightarrow> Inl e
             | Inr s2 \<Rightarrow>
                 if peek origpath_p' = NUL then
                   (if type (icache s2 ip) = T_FILE \<or> type (icache s2 ip) = T_DEV
                       \<or> type (icache s2 ip) = T_DIR then
                      (case iunlock s2 ip of
                         Inl e \<Rightarrow> Inl e
                       | Inr s3 \<Rightarrow>
                           if bufsiz < int (result_off + length nm) + 1 then
                             Inr (Inl (Return (- 1) []), s3)
                           else Inr (Inl (Return (int (result_off + length nm))
                                            (safestrcpy rpath (MAXPATH K))), s3))
                    else if type (icache s2 ip) = T_SYMLINK then
                      (case subst_last K s2 ip origpath result2 result_off of
                         Inl e \<Rightarrow> Inl e
                       | Inr ((origpath', result'), s3) \<Rightarrow>
                           Inr (Inl (Restart origpath' name' result'), s3))
                    else Inl (Panic ''filereadlink: unknown inode type''))
                 else
                   (if type (icache s2 ip) = T_FILE \<or> type (icache s2 ip) = T_DEV then
                      Inr (Inl (Return (- 1) []), s2)
                    else if type (icache s2 ip) = T_DIR then
                      (case poke result2 (int (result_off + length nm)) SLASH of
                         Inl e \<Rightarrow> Inl e
                       | Inr result3 \<Rightarrow>
                      (case poke result3 (int (result_off + length nm + 1)) NUL of
                         Inl e \<Rightarrow> Inl e
                       | Inr result4 \<Rightarrow>
                      (case iunlock s2 ip of
                         Inl e \<Rightarrow> Inl e
                       | Inr s3 \<Rightarrow>
                           Inr (Inr (origpath_p', name', result4, result_off + length nm + 1), s3))))
                    else if type (icache s2 ip) = T_SYMLINK then
                      (case subst_inner K s2 ip origpath result2 result_off origpath_p' of
                         Inl e \<Rightarrow> Inl e
                       | Inr ((origpath', result'), s3) \<Rightarrow>
                           Inr (Inl (Restart origpath' name' result'), s3))
                    else Inl (Panic ''filereadlink: unknown inode type'')))))))))"

lemma walk_step_shorter:
  assumes "walk_step K deref s origpath origpath_p name result result_off bufsiz
           = Inr (Inr (origpath_p', name', result', result_off'), s')"
  shows "length origpath_p' < length origpath_p"
proof -
  obtain n where "skipelem K origpath_p name = Some (origpath_p', n)"
    using assms unfolding walk_step_def
    by (auto split: option.splits sum.splits if_splits prod.splits)
  then show ?thesis
    by (rule skipelem_shorter)
qed

text \<open>The \<^verbatim>\<open>for(;;)\<close> loop.\<close>

function readlink_walk :: "params \<Rightarrow> bool \<Rightarrow> fs \<Rightarrow> char list \<Rightarrow> string \<Rightarrow> char list \<Rightarrow> char list
                            \<Rightarrow> nat \<Rightarrow> int \<Rightarrow> error + walk \<times> fs" where
  "readlink_walk K deref s origpath origpath_p name result result_off bufsiz =
     (case walk_step K deref s origpath origpath_p name result result_off bufsiz of
        Inl e \<Rightarrow> Inl e
      | Inr (Inl w, s') \<Rightarrow> Inr (w, s')
      | Inr (Inr (origpath_p', name', result', result_off'), s') \<Rightarrow>
          readlink_walk K deref s' origpath origpath_p' name' result' result_off' bufsiz)"
  by pat_completeness auto
termination
  by (relation "measure (\<lambda>(K, deref, s, origpath, origpath_p, name, result, result_off, bufsiz).
                  length origpath_p)")
    (auto simp: walk_step_shorter)

declare readlink_walk.simps [simp del]

text \<open>
  From the label \<^verbatim>\<open>restart\<close> on. A pass that ends with \<^verbatim>\<open>goto restart\<close> has first run
  \<^verbatim>\<open>loops_left--; if(loops_left == 0) return -1;\<close>.
\<close>

function readlink_restart :: "params \<Rightarrow> bool \<Rightarrow> fs \<Rightarrow> char list \<Rightarrow> char list \<Rightarrow> char list \<Rightarrow> nat
                               \<Rightarrow> int \<Rightarrow> error + int \<times> char list \<times> fs" where
  "readlink_restart K deref s origpath name result loops_left bufsiz =
     (case cstr origpath 0 of
        Inl e \<Rightarrow> Inl e
      | Inr opath \<Rightarrow>
     (case (if peek opath = SLASH then poke result 0 SLASH else Inr result) of
        Inl e \<Rightarrow> Inl e
      | Inr result1 \<Rightarrow>
     (case poke result1 (if peek opath = SLASH then 1 else 0) NUL of
        Inl e \<Rightarrow> Inl e
      | Inr result2 \<Rightarrow>
     (case readlink_walk K deref s origpath opath name result2
             (if peek opath = SLASH then 1 else 0) bufsiz of
        Inl e \<Rightarrow> Inl e
      | Inr (Return r out, s1) \<Rightarrow> Inr (r, out, s1)
      | Inr (Restart origpath' name' result', s1) \<Rightarrow>
          if loops_left - 1 = 0 then Inr (- 1, [], s1)
          else readlink_restart K deref s1 origpath' name' result' (loops_left - 1) bufsiz))))"
  by pat_completeness auto
termination
  by (relation "measure (\<lambda>(K, deref, s, origpath, name, result, loops_left, bufsiz). loops_left)")
    auto

declare readlink_restart.simps [simp del]

text \<open>
  Both functions give the value returned, the bytes stored through \<open>buf\<close>, and the state. The
  arrays \<^verbatim>\<open>name\<close> and \<^verbatim>\<open>result\<close> start with bytes that are never read before they are set.
\<close>

definition readlink :: "params \<Rightarrow> bool \<Rightarrow> fs \<Rightarrow> string \<Rightarrow> int \<Rightarrow> error + int \<times> char list \<times> fs" where
  "readlink K deref s pathname bufsiz =
     (if peek pathname = NUL then Inr (- 1, [], s)
      else if peek pathname = SLASH \<and> peek (tl pathname) = NUL then Inr (2, [SLASH, NUL], s)
      else readlink_restart K deref s
             (strncpy (takeWhile (\<lambda>c. c \<noteq> NUL) pathname) (MAXPATH K))
             (replicate (DIRSIZ K + 1) NUL) (replicate (MAXPATH K) NUL)
             MAX_SYMLINK_LOOPS bufsiz)"

definition filereadlink :: "params \<Rightarrow> fs \<Rightarrow> string \<Rightarrow> int \<Rightarrow> error + int \<times> char list \<times> fs" where
  "filereadlink K s pathname bufsiz = readlink K True s pathname bufsiz"

definition filereadlinki :: "params \<Rightarrow> fs \<Rightarrow> string \<Rightarrow> int \<Rightarrow> error + int \<times> char list \<times> fs" where
  "filereadlinki K s pathname bufsiz = readlink K False s pathname bufsiz"

section \<open>Passwords: \<^verbatim>\<open>unlock_inode\<close>, \<^verbatim>\<open>filefunprot\<close>, \<^verbatim>\<open>filefunlock\<close>\<close>

definition NINODES :: nat where
  "NINODES = 200"

text \<open>
  \<^verbatim>\<open>unlock_inode\<close>: the first loop looks for the process id in the row of the inode, the second
  for the first free slot of that row. The row is \<^verbatim>\<open>pids[ip->inum]\<close>, of an array of \<open>NINODES\<close>
  rows.
\<close>

definition unlock_inode :: "params \<Rightarrow> fs \<Rightarrow> nat \<Rightarrow> error + fs" where
  "unlock_inode K s ip =
     (let row = unat (inum (icache s ip)) in
      if row \<ge> NINODES then Inl Undefined
      else if list_ex (\<lambda>i. pids s row i = pid s) [0 ..< NPROC K] then Inr s
      else
        case find (\<lambda>i. pids s row i = 0) [0 ..< NPROC K] of
          Some i \<Rightarrow> Inr (s\<lparr>pids := (pids s)(row := (pids s row)(i := pid s))\<rparr>)
        | None \<Rightarrow> Inl (Panic ''unlock_inodes: No free pid slots found''))"

text \<open>
  The common beginning of \<^verbatim>\<open>filefprot\<close>, \<^verbatim>\<open>filefunprot\<close> and \<^verbatim>\<open>filefunlock\<close>: the path is made
  canonical into \<^verbatim>\<open>final_path[MAXPATH]\<close>, looked up and the inode locked. \<open>None\<close> is one of the
  two \<^verbatim>\<open>return -1\<close>.
\<close>

definition lock_target :: "params \<Rightarrow> fs \<Rightarrow> string \<Rightarrow> error + nat option \<times> fs" where
  "lock_target K s pathname =
     (case filereadlinki K s pathname (int (MAXPATH K)) of
        Inl e \<Rightarrow> Inl e
      | Inr (r, out, s1) \<Rightarrow>
          if r < 0 then Inr (None, s1)
          else
            (case store (replicate (MAXPATH K) NUL) 0 out of
               Inl e \<Rightarrow> Inl e
             | Inr final_path \<Rightarrow>
            (case cstr final_path 0 of
               Inl e \<Rightarrow> Inl e
             | Inr p \<Rightarrow>
            (case namei K s1 p of
               Inl e \<Rightarrow> Inl e
             | Inr (None, s2) \<Rightarrow> Inr (None, s2)
             | Inr (Some ip, s2) \<Rightarrow>
                 (case ilock s2 ip of
                    Inl e \<Rightarrow> Inl e
                  | Inr s3 \<Rightarrow> Inr (Some ip, s3))))))"

definition filefunprot :: "params \<Rightarrow> fs \<Rightarrow> string \<Rightarrow> string \<Rightarrow> error + int \<times> fs" where
  "filefunprot K s pathname pw =
     (case lock_target K s pathname of
        Inl e \<Rightarrow> Inl e
      | Inr (None, s1) \<Rightarrow> Inr (- 1, s1)
      | Inr (Some ip, s1) \<Rightarrow>
          if peek (password (icache s1 ip)) = NUL then
            (case iunlock s1 ip of Inl e \<Rightarrow> Inl e | Inr s2 \<Rightarrow> Inr (0, s2))
          else if strncmp (password (icache s1 ip)) pw (PASSLEN K) \<noteq> 0 then
            (case iunlock s1 ip of Inl e \<Rightarrow> Inl e | Inr s2 \<Rightarrow> Inr (- 1, s2))
          else
            (case iunlock (upd_inode s1 ip (\<lambda>i. i\<lparr>password := (password i)[0 := NUL]\<rparr>)) ip of
               Inl e \<Rightarrow> Inl e
             | Inr s2 \<Rightarrow> Inr (0, s2)))"

definition filefunlock :: "params \<Rightarrow> fs \<Rightarrow> string \<Rightarrow> string \<Rightarrow> error + int \<times> fs" where
  "filefunlock K s pathname pw =
     (case lock_target K s pathname of
        Inl e \<Rightarrow> Inl e
      | Inr (None, s1) \<Rightarrow> Inr (- 1, s1)
      | Inr (Some ip, s1) \<Rightarrow>
          if peek (password (icache s1 ip)) = NUL then
            (case iunlock s1 ip of Inl e \<Rightarrow> Inl e | Inr s2 \<Rightarrow> Inr (- 1, s2))
          else if strncmp (password (icache s1 ip)) pw (PASSLEN K) \<noteq> 0 then
            (case iunlock s1 ip of Inl e \<Rightarrow> Inl e | Inr s2 \<Rightarrow> Inr (- 1, s2))
          else
            (case unlock_inode K s1 ip of
               Inl e \<Rightarrow> Inl e
             | Inr s2 \<Rightarrow>
                 (case iunlock s2 ip of Inl e \<Rightarrow> Inl e | Inr s3 \<Rightarrow> Inr (0, s3))))"

section \<open>States for running the model\<close>

text \<open>Static storage starts as zeros.\<close>

definition inode_zero :: inode where
  "inode_zero = \<lparr>dev = 0, inum = 0, ref = 0, flags = 0, type = 0, major = 0, minor = 0,
                  nlink = 0, fsize = 0, addrs = (\<lambda>i. 0), indirect2 = 0, password = []\<rparr>"

definition dinode_zero :: dinode where
  "dinode_zero = \<lparr>d_type = 0, d_major = 0, d_minor = 0, d_nlink = 0, d_size = 0,
                   d_addrs = (\<lambda>i. 0), d_indirect2 = 0, d_password = []\<rparr>"

definition fs_blank :: fs where
  "fs_blank = \<lparr>sb = (\<lambda>d. \<lparr>sb_size = 1024, sb_ninodes = 200\<rparr>),
                bitmap = (\<lambda>d p. zero_block),
                dinodes = (\<lambda>d i. dinode_zero),
                blocks = (\<lambda>d b. zero_block),
                icache = (\<lambda>i. inode_zero),
                pids = (\<lambda>i j. 0), pid = 1, cwd = 0,
                devsw = (\<lambda>i. \<lparr>dread = None, dwrite = None\<rparr>)\<rparr>"

text \<open>A block that starts with the given bytes.\<close>

definition bytes :: "string \<Rightarrow> block" where
  "bytes xs = (\<lambda>i. if i < length xs then xs ! i else NUL)"

text \<open>
  One regular file of five bytes, \<open>hello\<close>, in block 70 of device 1, cached and valid in entry 0
  of the inode cache.
\<close>

definition fs_hello :: fs where
  "fs_hello = fs_blank\<lparr>
     blocks := (\<lambda>d b. if d = 1 \<and> b = 70 then bytes ''hello'' else zero_block),
     icache := (\<lambda>i. if i = 0 then inode_zero\<lparr>dev := 1, inum := 2, ref := 1, flags := I_VALID,
                  type := T_FILE, nlink := 1, fsize := 5, addrs := (\<lambda>i. if i = 0 then 70 else 0)\<rparr>
                else inode_zero)\<rparr>"

text \<open>
  A disk with the root directory (inode 1) and one regular file \<open>/f\<close> (inode 2), both with the
  password \<open>pw\<close>; nothing is cached yet.
\<close>

definition fs_pw :: fs where
  "fs_pw = fs_blank\<lparr>
     dinodes := (\<lambda>d n. if d = 1 \<and> n = 1 then
                          dinode_zero\<lparr>d_type := T_DIR, d_nlink := 1, d_size := 16,
                                       d_addrs := (\<lambda>i. if i = 0 then 100 else 0),
                                       d_password := ''pw'' @ replicate 8 NUL\<rparr>
                        else if d = 1 \<and> n = 2 then
                          dinode_zero\<lparr>d_type := T_FILE, d_nlink := 1, d_size := 5,
                                       d_addrs := (\<lambda>i. if i = 0 then 101 else 0),
                                       d_password := ''pw'' @ replicate 8 NUL\<rparr>
                        else dinode_zero),
     blocks := (\<lambda>d b. if d = 1 \<and> b = 100 then bytes [CHR 0x02, CHR 0x00, CHR ''f'']
                       else if d = 1 \<and> b = 101 then bytes ''hello''
                       else zero_block)\<rparr>"

text \<open>The same, with the root directory cached in entry 0, valid and locked.\<close>

definition fs_pw_root :: fs where
  "fs_pw_root = upd_inode fs_pw 0 (\<lambda>i. i\<lparr>dev := 1, inum := 1, ref := 1, flags := 3, type := T_DIR,
                   nlink := 1, fsize := 16, addrs := (\<lambda>i. if i = 0 then 100 else 0),
                   password := ''pw'' @ replicate 8 NUL\<rparr>)"

text \<open>
  The same disk, with the file \<open>/f\<close> cached in entry 1, one reference held on it; and the
  states that the walk to \<open>/f\<close> goes through: the root directory locked in entry 0, the file
  found, the root directory released.
\<close>

definition fs_pw_file :: fs where
  "fs_pw_file = upd_inode fs_pw 1 (\<lambda>i. i\<lparr>dev := 1, inum := 2, ref := 1, flags := 2, type := T_FILE,
                   nlink := 1, fsize := 5, addrs := (\<lambda>i. if i = 0 then 101 else 0),
                   password := ''pw'' @ replicate 8 NUL\<rparr>)"

definition fs_pw_file1 :: fs where
  "fs_pw_file1 = upd_inode fs_pw_file 0 (\<lambda>i. i\<lparr>dev := 1, inum := 1, ref := 1, flags := 3, type := T_DIR,
                   nlink := 1, fsize := 16, addrs := (\<lambda>i. if i = 0 then 100 else 0),
                   password := ''pw'' @ replicate 8 NUL\<rparr>)"

definition fs_pw_file2 :: fs where
  "fs_pw_file2 = upd_inode fs_pw_file1 1 (\<lambda>n. n\<lparr>ref := 2\<rparr>)"

definition fs_pw_file3 :: fs where
  "fs_pw_file3 = upd_inode fs_pw_file2 0 (\<lambda>n. n\<lparr>ref := 0, flags := 2\<rparr>)"

section \<open>Auxiliary facts\<close>

lemma xv6_simps:
  "NDIRECT xv6 = 12" "MAXFILE xv6 = 16524" "DIRSIZ xv6 = 14" "MAXPATH xv6 = 128"
  "PASSLEN xv6 = 10" "NPROC xv6 = 64" "NINODE xv6 = 50" "NDEV xv6 = 10"
  by (simp_all add: xv6_def)

lemma iget_scan_miss:
  "\<forall>j \<in> set xs. \<not> (ref (c j) > 0 \<and> dev (c j) = dv \<and> inum (c j) = ino)
   \<Longrightarrow> iget_scan c dv ino xs e
       = Inr (case e of Some x \<Rightarrow> Some x | None \<Rightarrow> find (\<lambda>j. ref (c j) = 0) xs)"
  by (induction xs arbitrary: e) (auto split: option.splits)

lemma iget_scan_hit:
  "i < n \<Longrightarrow> ref (c i) > 0 \<and> dev (c i) = dv \<and> inum (c i) = ino
   \<Longrightarrow> \<forall>j<i. \<not> (ref (c j) > 0 \<and> dev (c j) = dv \<and> inum (c j) = ino)
   \<Longrightarrow> m \<le> i \<Longrightarrow> iget_scan c dv ino [m ..< n] e = Inl i"
proof (induction "i - m" arbitrary: m e)
  case 0
  then have "m = i" by simp
  then show ?case using 0 by (simp add: upt_conv_Cons)
next
  case (Suc k)
  then have "m < i" by simp
  then show ?case
    using Suc.prems Suc.hyps(1) [of "Suc m"] Suc.hyps(2)
    by (simp add: upt_conv_Cons)
qed

lemma find_first:
  "i < n \<Longrightarrow> P i \<Longrightarrow> \<forall>j<i. \<not> P j \<Longrightarrow> m \<le> i \<Longrightarrow> find P [m ..< n] = Some i"
proof (induction "i - m" arbitrary: m)
  case 0
  then have "m = i" by simp
  then show ?case using 0 by (simp add: upt_conv_Cons)
next
  case (Suc k)
  then have "m < i" by simp
  then show ?case
    using Suc.prems Suc.hyps(1) [of "Suc m"] Suc.hyps(2)
    by (simp add: upt_conv_Cons)
qed

lemma iget_cached:
  assumes "i < NINODE K" and "ref (icache s i) > 0 \<and> dev (icache s i) = dv \<and> inum (icache s i) = ino"
    and "\<forall>j<i. \<not> (ref (icache s j) > 0 \<and> dev (icache s j) = dv \<and> inum (icache s j) = ino)"
  shows "iget K s dv ino = Inr (i, upd_inode s i (\<lambda>n. n\<lparr>ref := ref n + 1\<rparr>))"
  using iget_scan_hit [OF assms(1) assms(2) assms(3), of 0 None]
  by (simp add: iget_def)

lemma iget_fresh:
  assumes "i < NINODE K" and "ref (icache s i) = 0" and "\<forall>j<i. ref (icache s j) \<noteq> 0"
    and "\<forall>j<NINODE K. \<not> (ref (icache s j) > 0 \<and> dev (icache s j) = dv \<and> inum (icache s j) = ino)"
  shows "iget K s dv ino = Inr (i, upd_inode s i (\<lambda>n. n\<lparr>dev := dv, inum := ino, ref := 1, flags := 0\<rparr>))"
proof -
  have "iget_scan (icache s) dv ino [0 ..< NINODE K] None
        = Inr (find (\<lambda>j. ref (icache s j) = 0) [0 ..< NINODE K])"
    using assms(4) by (subst iget_scan_miss) auto
  moreover have "find (\<lambda>j. ref (icache s j) = 0) [0 ..< NINODE K] = Some i"
    using assms(1,2,3) by (intro find_first) auto
  ultimately show ?thesis
    by (simp add: iget_def)
qed

lemma and_or_I_BUSY: "and (or (f :: int) I_BUSY) I_BUSY \<noteq> 0"
proof -
  have "bit (and (or f 1) (1::int)) 0"
    by (simp add: bit_simps)
  then have "and (or f 1) (1::int) \<noteq> 0"
    by (metis bit_0_eq bot_apply bot_bool_def)
  then show ?thesis
    by (simp add: I_BUSY_def)
qed

lemma and_or_or_I_BUSY: "and (or (or (f :: int) I_BUSY) I_VALID) I_BUSY \<noteq> 0"
proof -
  have "bit (and (or (or f 1) 2) (1::int)) 0"
    by (simp add: bit_simps)
  then have "and (or (or f 1) 2) (1::int) \<noteq> 0"
    by (metis bit_0_eq bot_apply bot_bool_def)
  then show ?thesis
    by (simp add: I_BUSY_def I_VALID_def)
qed

lemma ilock_locked:
  assumes "ilock s ip = Inr s1"
  shows "and (flags (icache s1 ip)) I_BUSY \<noteq> 0 \<and> 1 \<le> ref (icache s1 ip)"
  using assms and_or_I_BUSY and_or_or_I_BUSY
  by (auto simp: ilock_def Let_def upd_inode_def split: if_splits)

lemma lock_target_locked:
  assumes "lock_target K s pathname = Inr (Some ip, s1)"
  shows "and (flags (icache s1 ip)) I_BUSY \<noteq> 0 \<and> 1 \<le> ref (icache s1 ip)"
proof -
  obtain s0 where "ilock s0 ip = Inr s1"
    using assms
    by (auto simp: lock_target_def split: sum.splits if_splits option.splits)
  then show ?thesis
    by (rule ilock_locked)
qed

lemma iunlock_locked:
  assumes "and (flags (icache s ip)) I_BUSY \<noteq> 0 \<and> 1 \<le> ref (icache s ip)"
  shows "iunlock s ip = Inr (upd_inode s ip (\<lambda>i. i\<lparr>flags := and (flags i) (not I_BUSY)\<rparr>))"
  using assms by (simp add: iunlock_def)

lemma pids_upd_inode [simp]: "pids (upd_inode s ip f) = pids s"
  by (simp add: upd_inode_def)

lemma pid_upd_inode [simp]: "pid (upd_inode s ip f) = pid s"
  by (simp add: upd_inode_def)

lemma icache_pids_update [simp]: "icache (s\<lparr>pids := x\<rparr>) = icache s"
  by simp

lemma find_upt_None: "find P [0 ..< n] = None \<longleftrightarrow> (\<forall>i<n. \<not> P i)"
  by (auto simp: find_None_iff)

lemma find_upt_Some: "find P [0 ..< n] = Some i \<Longrightarrow> i < n \<and> P i"
  by (auto simp: find_Some_iff)

lemma list_ex_upt: "list_ex P [0 ..< n] \<longleftrightarrow> (\<exists>i<n. P i)"
  by (auto simp: list_ex_iff)

lemma replicate_Suc_numeral: "replicate (numeral n) x = x # replicate (pred_numeral n) x"
  by (simp add: numeral_eq_Suc)

section \<open>Properties of \<^verbatim>\<open>skipelem\<close>\<close>

lemma skip_name_dropWhile: "skip_name p = dropWhile (\<lambda>c. c \<noteq> SLASH \<and> c \<noteq> NUL) p"
  by (induction p) auto

lemma skip_slashes_dropWhile: "skip_slashes p = dropWhile (\<lambda>c. c = SLASH) p"
  by (induction p) auto

lemma peek_skip_slashes: "peek (skip_slashes p) \<noteq> SLASH"
  by (induction p) (auto simp: peek_def NUL_def SLASH_def)

lemma component_split:
  "skip_slashes path = component path @ after_component path"
  by (simp add: component_def after_component_def)

lemma length_component:
  "length (skip_slashes path) - length (skip_name (skip_slashes path)) = length (component path)"
proof -
  let ?P = "\<lambda>c. c \<noteq> SLASH \<and> c \<noteq> NUL"
  have "length (takeWhile ?P (skip_slashes path)) + length (dropWhile ?P (skip_slashes path))
        = length (skip_slashes path)"
    by (simp flip: length_append)
  then show ?thesis
    by (simp add: skip_name_dropWhile component_def)
qed

lemma length_after_component:
  "length (skip_slashes path) - length (after_component path) = length (component path)"
  using length_component [of path] by (simp add: skip_name_dropWhile after_component_def)

lemma component_empty_iff: "component path = [] \<longleftrightarrow> peek (skip_slashes path) = NUL"
proof (cases "skip_slashes path")
  case Nil
  then show ?thesis by (simp add: component_def peek_def)
next
  case (Cons c cs)
  have "c \<noteq> SLASH"
    using peek_skip_slashes [of path] Cons by (simp add: peek_def)
  then show ?thesis
    using Cons by (auto simp: component_def peek_def)
qed

lemma component_no_NUL: "NUL \<notin> set (component path)"
  by (auto simp: component_def dest: set_takeWhileD)

lemma component_no_SLASH: "SLASH \<notin> set (component path)"
  by (auto simp: component_def dest: set_takeWhileD)

lemma take_component:
  "n \<le> length (component path) \<Longrightarrow> take n (skip_slashes path) = take n (component path)"
  by (subst component_split) simp

text \<open>
  C9. When the next component has at least \<open>DIRSIZ\<close> bytes, \<^verbatim>\<open>skipelem\<close> stores exactly its first
  \<open>DIRSIZ\<close> bytes in \<open>name\<close>, none of them NUL, and leaves every other byte of the buffer as it
  was, so it writes no terminator. When the component is shorter, it stores the component followed
  by one NUL. In both cases the remainder returned is what follows the component with all leading
  slashes removed: it does not start with a slash.
\<close>

theorem skipelem_name_and_remainder:
  assumes "component path \<noteq> []" and "DIRSIZ K \<le> length name"
  shows "\<exists>name'. skipelem K path name = Some (skip_slashes (after_component path), name')
           \<and> peek (skip_slashes (after_component path)) \<noteq> SLASH
           \<and> length name' = length name
           \<and> (DIRSIZ K \<le> length (component path) \<longrightarrow>
                  take (DIRSIZ K) name' = take (DIRSIZ K) (component path)
                  \<and> NUL \<notin> set (take (DIRSIZ K) name')
                  \<and> drop (DIRSIZ K) name' = drop (DIRSIZ K) name)
           \<and> (length (component path) < DIRSIZ K \<longrightarrow>
                  take (length (component path)) name' = component path
                  \<and> name' ! length (component path) = NUL
                  \<and> drop (Suc (length (component path))) name'
                      = drop (Suc (length (component path))) name)"
proof -
  let ?n = "length (component path)"
  have nz: "peek (skip_slashes path) \<noteq> NUL"
    using assms(1) by (simp add: component_empty_iff)
  have rest: "skip_name (skip_slashes path) = after_component path"
    by (simp add: skip_name_dropWhile after_component_def)
  show ?thesis
  proof (cases "DIRSIZ K \<le> ?n")
    case True
    have "NUL \<notin> set (take (DIRSIZ K) (component path))"
      using component_no_NUL [of path] by (auto dest: in_set_takeD)
    then show ?thesis
      using True nz assms(2)
      by (simp add: skipelem_def Let_def rest length_after_component memmove_def take_component
          peek_skip_slashes)
  next
    case False
    then have lt: "?n < DIRSIZ K" by simp
    have "take ?n (skip_slashes path) = component path"
      using take_component [of ?n path] by simp
    then show ?thesis
      using lt nz assms(2)
      by (simp add: skipelem_def Let_def rest length_after_component memmove_def
          nth_append list_update_append drop_update_cancel peek_skip_slashes)
  qed
qed

theorem skipelem_name_and_remainder_witness:
  "component ''//abcdefghijklmnopq//r'' \<noteq> []
   \<and> DIRSIZ xv6 \<le> length ''0123456789012345''
   \<and> (\<exists>name'. skipelem xv6 ''//abcdefghijklmnopq//r'' ''0123456789012345'' = Some (''r'', name')
          \<and> take 14 name' = ''abcdefghijklmn'' \<and> drop 14 name' = ''45'')"
proof -
  have c: "component ''//abcdefghijklmnopq//r'' = ''abcdefghijklmnopq''"
    by (simp add: component_def SLASH_def NUL_def)
  have a: "skip_slashes (after_component ''//abcdefghijklmnopq//r'') = ''r''"
    by (simp add: after_component_def SLASH_def NUL_def)
  have d: "DIRSIZ xv6 = 14"
    by (simp add: xv6_def)
  show ?thesis
    using skipelem_name_and_remainder [of "''//abcdefghijklmnopq//r''" xv6 "''0123456789012345''"]
    by (auto simp: c a d)
qed

section \<open>Properties of \<^verbatim>\<open>readi\<close> and \<^verbatim>\<open>writei\<close>\<close>

lemma readi_loop_length:
  "tot \<le> n \<Longrightarrow> readi_loop K s ip off n tot dst = Inr (dst', s')
   \<Longrightarrow> length dst' = length dst + unat (n - tot)"
proof (induction K s ip off n tot dst rule: readi_loop.induct)
  case (1 K s ip off n tot dst)
  show ?case
  proof (cases "tot < n")
    case False
    then have "tot = n" using "1.prems"(1) by simp
    then show ?thesis using "1.prems"(2) by (simp add: readi_loop.simps [of K s ip off n n dst])
  next
    case True
    let ?m = "min (n - tot) (word_of_nat BSIZE - off mod word_of_nat BSIZE)"
    obtain b s1 where b: "bmap K s ip (off div word_of_nat BSIZE) = Inr (b, s1)"
      using "1.prems"(2) True
      by (auto simp: readi_loop.simps [of K s ip off n tot dst] split: sum.splits)
    have le: "?m \<le> n - tot" by simp
    have tm: "tot + ?m \<le> n"
      using le True by unat_arith
    have sum: "unat (n - (tot + ?m)) + unat ?m = unat (n - tot)"
      using le True by unat_arith
    have "readi_loop K s1 ip (off + ?m) n (tot + ?m)
            (dst @ map (blocks s1 (dev (icache s1 ip)) b)
               [unat (off mod word_of_nat BSIZE) ..< unat (off mod word_of_nat BSIZE) + unat ?m])
          = Inr (dst', s')"
      using "1.prems"(2) True b by (simp add: readi_loop.simps [of K s ip off n tot dst] Let_def)
    from "1.IH" [OF True b refl refl refl refl tm this]
    show ?thesis using sum by simp
  qed
qed

lemma readi_loop_done: "readi_loop K s ip off 0 0 dst = Inr (dst, s)"
  by (simp add: readi_loop.simps [of K s ip off 0 0 dst])

text \<open>
  C2, as the code has it. On an inode that is not a device: an offset beyond the size is rejected
  with -1; so is a length that makes \<open>off + n\<close> wrap around; an offset equal to the size gives 0
  and no bytes; and a read from within the file that reaches past the size gives \<open>size - off\<close>
  and that many bytes, unless the block map panics.
\<close>

theorem readi_bounds:
  assumes "type (icache s ip) \<noteq> T_DEV"
  shows "(fsize (icache s ip) < off \<longrightarrow> readi K s ip off n = Inr (- 1, [], s))
       \<and> (off + n < off \<longrightarrow> readi K s ip off n = Inr (- 1, [], s))
       \<and> (off = fsize (icache s ip) \<and> off \<le> off + n \<longrightarrow> readi K s ip off n = Inr (0, [], s))
       \<and> (off \<le> fsize (icache s ip) \<and> off \<le> off + n \<and> fsize (icache s ip) < off + n \<longrightarrow>
            (\<exists>e. readi K s ip off n = Inl e)
            \<or> (\<exists>dst s'. readi K s ip off n = Inr (sint (fsize (icache s ip) - off), dst, s')
                  \<and> length dst = unat (fsize (icache s ip) - off)))"
proof (intro conjI impI)
  assume "fsize (icache s ip) < off"
  then show "readi K s ip off n = Inr (- 1, [], s)"
    using assms by (simp add: readi_def Let_def)
next
  assume "off + n < off"
  then show "readi K s ip off n = Inr (- 1, [], s)"
    using assms by (simp add: readi_def Let_def)
next
  assume a: "off = fsize (icache s ip) \<and> off \<le> off + n"
  then have "\<not> fsize (icache s ip) < off" "\<not> off + n < off"
    by (auto simp: not_less)
  moreover have "(if fsize (icache s ip) < off + n then fsize (icache s ip) - off else n) = 0"
    using a by (auto simp: not_less)
  ultimately show "readi K s ip off n = Inr (0, [], s)"
    using assms by (simp add: readi_def Let_def add: readi_loop_done)
next
  assume a: "off \<le> fsize (icache s ip) \<and> off \<le> off + n \<and> fsize (icache s ip) < off + n"
  let ?n = "fsize (icache s ip) - off"
  have g: "\<not> fsize (icache s ip) < off" "\<not> off + n < off"
    using a by (auto simp: not_less)
  show "(\<exists>e. readi K s ip off n = Inl e)
            \<or> (\<exists>dst s'. readi K s ip off n = Inr (sint ?n, dst, s') \<and> length dst = unat ?n)"
  proof (cases "readi_loop K s ip off ?n 0 []")
    case (Inl e)
    then have "readi K s ip off n = Inl e"
      using assms g a by (simp add: readi_def Let_def)
    then show ?thesis by blast
  next
    case (Inr r)
    obtain dst s' where r: "r = (dst, s')" by (cases r)
    have "length dst = unat ?n"
      using readi_loop_length [of 0 ?n K s ip off "[]" dst s'] Inr r by simp
    moreover have "readi K s ip off n = Inr (sint ?n, dst, s')"
      using assms g a Inr r by (simp add: readi_def Let_def)
    ultimately show ?thesis by blast
  qed
qed

lemma fs_hello_file:
  "type (icache fs_hello 0) \<noteq> T_DEV" "fsize (icache fs_hello 0) = 5"
  by (simp_all add: fs_hello_def fs_blank_def inode_zero_def T_FILE_def T_DEV_def)

lemma fs_hello_read: "readi xv6 fs_hello 0 2 10 = Inr (3, ''llo'', fs_hello)"
  by (simp add: readi_def fs_hello_def fs_blank_def inode_zero_def T_FILE_def T_DEV_def Let_def
      bmap_def bmap_field_def xv6_def BSIZE_def bytes_def readi_loop.simps)

theorem readi_bounds_witness:
  "type (icache fs_hello 0) \<noteq> T_DEV
   \<and> readi xv6 fs_hello 0 6 10 = Inr (- 1, [], fs_hello)
   \<and> readi xv6 fs_hello 0 5 10 = Inr (0, [], fs_hello)
   \<and> readi xv6 fs_hello 0 2 10 = Inr (sint (5 - 2 :: uint), ''llo'', fs_hello)
   \<and> length ''llo'' = unat (5 - 2 :: uint)"
  using readi_bounds [OF fs_hello_file(1), of 6 xv6 10]
    readi_bounds [OF fs_hello_file(1), of 5 xv6 10] fs_hello_read
  by (simp add: fs_hello_file)

text \<open>
  The claim C2 as stated fails: the file has five bytes, the offset 6 is beyond its size, and the
  read does not succeed with zero bytes but is rejected.
\<close>

theorem readi_beyond_size_counterexample:
  "type (icache fs_hello 0) \<noteq> T_DEV \<and> fsize (icache fs_hello 0) \<le> 6
   \<and> readi xv6 fs_hello 0 6 1 = Inr (- 1, [], fs_hello)
   \<and> readi xv6 fs_hello 0 6 1 \<noteq> Inr (0, [], fs_hello)"
  by (simp add: readi_def fs_hello_def fs_blank_def inode_zero_def T_FILE_def T_DEV_def Let_def)

text \<open>
  C10. On an inode that is not a device, a write at an offset beyond the size returns -1 and
  leaves the whole state, so the inode's size, block map and content, as it was. A write at an
  offset up to the size, whose end neither wraps around nor passes the largest file size, is not
  rejected: it returns \<open>n\<close>, unless the block map panics.
\<close>

theorem writei_past_end:
  assumes "type (icache s ip) \<noteq> T_DEV"
  shows "(fsize (icache s ip) < off \<longrightarrow> writei K s ip src off n = Inr (- 1, s))
       \<and> (off \<le> fsize (icache s ip) \<and> off \<le> off + n \<and> unat (off + n) \<le> MAXFILE K * BSIZE \<longrightarrow>
            (\<exists>e. writei K s ip src off n = Inl e) \<or> (\<exists>s'. writei K s ip src off n = Inr (sint n, s')))"
proof (intro conjI impI)
  assume "fsize (icache s ip) < off"
  then show "writei K s ip src off n = Inr (- 1, s)"
    using assms by (simp add: writei_def Let_def)
next
  assume a: "off \<le> fsize (icache s ip) \<and> off \<le> off + n \<and> unat (off + n) \<le> MAXFILE K * BSIZE"
  then have g: "\<not> fsize (icache s ip) < off" "\<not> off + n < off" "\<not> MAXFILE K * BSIZE < unat (off + n)"
    by (auto simp: not_less)
  show "(\<exists>e. writei K s ip src off n = Inl e) \<or> (\<exists>s'. writei K s ip src off n = Inr (sint n, s'))"
  proof (cases "writei_loop K s ip src off n 0")
    case (Inl e)
    then have "writei K s ip src off n = Inl e"
      using assms g by (simp add: writei_def Let_def)
    then show ?thesis by blast
  next
    case (Inr r)
    then have "\<exists>s'. writei K s ip src off n = Inr (sint n, s')"
      using assms g by (cases r) (simp add: writei_def Let_def)
    then show ?thesis by blast
  qed
qed

theorem writei_past_end_witness:
  "type (icache fs_hello 0) \<noteq> T_DEV \<and> fsize (icache fs_hello 0) < 6
   \<and> writei xv6 fs_hello 0 (bytes ''x'') 6 1 = Inr (- 1, fs_hello)"
  using writei_past_end [OF fs_hello_file(1), of 6 xv6 "bytes ''x''" 1]
  by (simp add: fs_hello_file)

section \<open>Properties of \<^verbatim>\<open>dirlookup\<close>\<close>

text \<open>
  C3, as the code has it. On an inode that is not a directory \<^verbatim>\<open>dirlookup\<close> does not return the
  null pointer: it panics. The path walk \<^verbatim>\<open>namex\<close> is what turns a component that is not a
  directory into the null result: it tests the type after locking the inode and returns before
  it would call \<^verbatim>\<open>dirlookup\<close>.
\<close>

theorem dirlookup_not_dir:
  "(type (icache s dp) \<noteq> T_DIR \<longrightarrow> dirlookup K s dp name = Inl (Panic ''dirlookup not DIR''))
   \<and> (skipelem K path name = Some (path', name') \<and> ilock s dp = Inr s1
        \<and> type (icache s1 dp) \<noteq> T_DIR \<and> iunlockput K s1 dp = Inr s2 \<longrightarrow>
        namex_loop K s dp path parent name = Inr (None, name', s2))"
  by (simp add: dirlookup_def dirlookup_from.simps [of K s dp name 0]
      namex_loop.simps [of K s dp path parent name])

lemma fs_hello_unlocked:
  "ilock fs_hello 0 = Inr (upd_inode fs_hello 0 (\<lambda>i. i\<lparr>flags := or (flags i) I_BUSY\<rparr>))"
  by (simp add: ilock_def fs_hello_def fs_blank_def inode_zero_def upd_inode_def
      I_BUSY_def I_VALID_def Let_def)

theorem dirlookup_not_dir_witness:
  "type (icache fs_hello 0) \<noteq> T_DIR
   \<and> dirlookup xv6 fs_hello 0 ''b'' = Inl (Panic ''dirlookup not DIR'')
   \<and> skipelem xv6 ''a'' ''xxxxxxxxxxxxxx'' = Some ([], ''a'' @ NUL # ''xxxxxxxxxxxx'')
   \<and> (\<exists>s1 s2. ilock fs_hello 0 = Inr s1 \<and> type (icache s1 0) \<noteq> T_DIR
        \<and> iunlockput xv6 s1 0 = Inr s2
        \<and> namex_loop xv6 fs_hello 0 ''a'' False ''xxxxxxxxxxxxxx''
            = Inr (None, ''a'' @ NUL # ''xxxxxxxxxxxx'', s2))"
proof -
  let ?s1 = "upd_inode fs_hello 0 (\<lambda>i. i\<lparr>flags := or (flags i) I_BUSY\<rparr>)"
  let ?s2 = "upd_inode (upd_inode ?s1 0 (\<lambda>i. i\<lparr>flags := and (flags i) (not I_BUSY)\<rparr>)) 0
               (\<lambda>i. i\<lparr>ref := ref i - 1\<rparr>)"
  have t: "type (icache fs_hello 0) \<noteq> T_DIR"
    by (simp add: fs_hello_def fs_blank_def inode_zero_def T_FILE_def T_DIR_def)
  have t1: "type (icache ?s1 0) \<noteq> T_DIR"
    by (simp add: fs_hello_def fs_blank_def inode_zero_def T_FILE_def T_DIR_def upd_inode_def)
  have sk: "skipelem xv6 ''a'' ''xxxxxxxxxxxxxx'' = Some ([], ''a'' @ NUL # ''xxxxxxxxxxxx'')"
    by (simp add: skipelem_def xv6_def peek_def NUL_def SLASH_def memmove_def Let_def)
  have up: "iunlockput xv6 ?s1 0 = Inr ?s2"
    by (simp add: iunlockput_def iunlock_def iput_def fs_hello_def fs_blank_def inode_zero_def
        upd_inode_def I_BUSY_def I_VALID_def Let_def)
  show ?thesis
    using dirlookup_not_dir [where s = fs_hello and dp = 0 and K = xv6 and path = "''a''"
        and name = "''xxxxxxxxxxxxxx''" and path' = "[]"
        and name' = "''a'' @ NUL # ''xxxxxxxxxxxx''" and ?s1.0 = ?s1 and ?s2.0 = ?s2
        and parent = False]
      dirlookup_not_dir [where s = fs_hello and dp = 0 and K = xv6 and name = "''b''"]
      t t1 sk up fs_hello_unlocked
    by simp
qed

text \<open>
  The claim C3 as stated fails: entry 0 of the inode cache is a regular file, and the lookup in
  it gives no null pointer but a panic.
\<close>

theorem dirlookup_not_dir_counterexample:
  "type (icache fs_hello 0) \<noteq> T_DIR
   \<and> dirlookup xv6 fs_hello 0 ''a'' = Inl (Panic ''dirlookup not DIR'')"
proof -
  have "type (icache fs_hello 0) \<noteq> T_DIR"
    by (simp add: fs_hello_def fs_blank_def inode_zero_def T_FILE_def T_DIR_def)
  then show ?thesis
    by (simp add: dirlookup_def dirlookup_from.simps [of xv6 fs_hello 0 "''a''" 0])
qed

section \<open>\<^verbatim>\<open>iput\<close>\<close>

text \<open>
  C4 fails on the code. The inode of entry 0 is valid, has one link and one reference. \<^verbatim>\<open>iput\<close>
  drops the reference and leaves the flags as they are: the entry has no reference any more and
  is still marked valid. (The comment at the head of the inode layer says that \<^verbatim>\<open>iput\<close> clears
  \<^verbatim>\<open>I_VALID\<close> when the count has fallen to zero.)
\<close>

theorem iput_keeps_flags:
  "ref (icache fs_hello 0) = 1 \<and> flags (icache fs_hello 0) = I_VALID \<and> nlink (icache fs_hello 0) = 1
   \<and> iput xv6 fs_hello 0 = Inr (upd_inode fs_hello 0 (\<lambda>i. i\<lparr>ref := ref i - 1\<rparr>))
   \<and> ref (icache (upd_inode fs_hello 0 (\<lambda>i. i\<lparr>ref := ref i - 1\<rparr>)) 0) = 0
   \<and> flags (icache (upd_inode fs_hello 0 (\<lambda>i. i\<lparr>ref := ref i - 1\<rparr>)) 0) = I_VALID
   \<and> I_VALID \<noteq> 0"
  by (simp add: iput_def fs_hello_def fs_blank_def inode_zero_def upd_inode_def I_VALID_def)

section \<open>Properties of \<^verbatim>\<open>filefunlock\<close>\<close>

text \<open>
  C6. Let the path resolve to the inode \<open>ip\<close>, locked in the state \<open>s1\<close>. If \<^verbatim>\<open>filefunlock\<close>
  returns 0, the password given matches the stored one and the process id is in the row of the
  inode in the exemption table. If the password does not match it returns -1 and the table is as
  before. If the password matches and the process id is already in the row, it returns 0 and the
  table is as before. If the password matches, the process id is not in the row and the row has
  no free slot, it panics.
\<close>

theorem filefunlock_grant:
  assumes "lock_target K s pathname = Inr (Some ip, s1)"
  shows "(\<forall>s'. filefunlock K s pathname pw = Inr (0, s') \<longrightarrow>
            strncmp (password (icache s1 ip)) pw (PASSLEN K) = 0
            \<and> (\<exists>i<NPROC K. pids s' (unat (inum (icache s1 ip))) i = pid s1))
       \<and> (strncmp (password (icache s1 ip)) pw (PASSLEN K) \<noteq> 0 \<longrightarrow>
            (\<exists>s'. filefunlock K s pathname pw = Inr (- 1, s') \<and> pids s' = pids s1))
       \<and> (peek (password (icache s1 ip)) \<noteq> NUL
           \<and> strncmp (password (icache s1 ip)) pw (PASSLEN K) = 0
           \<and> unat (inum (icache s1 ip)) < NINODES
           \<and> (\<exists>i<NPROC K. pids s1 (unat (inum (icache s1 ip))) i = pid s1) \<longrightarrow>
            (\<exists>s'. filefunlock K s pathname pw = Inr (0, s') \<and> pids s' = pids s1))
       \<and> (peek (password (icache s1 ip)) \<noteq> NUL
           \<and> strncmp (password (icache s1 ip)) pw (PASSLEN K) = 0
           \<and> unat (inum (icache s1 ip)) < NINODES
           \<and> (\<forall>i<NPROC K. pids s1 (unat (inum (icache s1 ip))) i \<noteq> pid s1
                          \<and> pids s1 (unat (inum (icache s1 ip))) i \<noteq> 0) \<longrightarrow>
            filefunlock K s pathname pw = Inl (Panic ''unlock_inodes: No free pid slots found''))"
proof -
  let ?row = "unat (inum (icache s1 ip))"
  note lk = lock_target_locked [OF assms]
  note ul = iunlock_locked [OF lk]
  have ul': "\<And>x. iunlock (s1\<lparr>pids := x\<rparr>) ip
               = Inr (upd_inode (s1\<lparr>pids := x\<rparr>) ip (\<lambda>i. i\<lparr>flags := and (flags i) (not I_BUSY)\<rparr>))"
    using lk by (intro iunlock_locked) simp
  have c1: "\<forall>s'. filefunlock K s pathname pw = Inr (0, s') \<longrightarrow>
            strncmp (password (icache s1 ip)) pw (PASSLEN K) = 0
            \<and> (\<exists>i<NPROC K. pids s' ?row i = pid s1)"
    using assms ul ul'
    by (auto simp: filefunlock_def unlock_inode_def Let_def list_ex_upt
        split: if_splits option.splits dest!: find_upt_Some)
  have c2: "strncmp (password (icache s1 ip)) pw (PASSLEN K) \<noteq> 0 \<longrightarrow>
            (\<exists>s'. filefunlock K s pathname pw = Inr (- 1, s') \<and> pids s' = pids s1)"
    using assms ul by (auto simp: filefunlock_def)
  have c3: "peek (password (icache s1 ip)) \<noteq> NUL
           \<and> strncmp (password (icache s1 ip)) pw (PASSLEN K) = 0
           \<and> ?row < NINODES
           \<and> (\<exists>i<NPROC K. pids s1 ?row i = pid s1) \<longrightarrow>
            (\<exists>s'. filefunlock K s pathname pw = Inr (0, s') \<and> pids s' = pids s1)"
    using assms ul by (auto simp: filefunlock_def unlock_inode_def Let_def list_ex_upt)
  have c4: "peek (password (icache s1 ip)) \<noteq> NUL
           \<and> strncmp (password (icache s1 ip)) pw (PASSLEN K) = 0
           \<and> ?row < NINODES
           \<and> (\<forall>i<NPROC K. pids s1 ?row i \<noteq> pid s1 \<and> pids s1 ?row i \<noteq> 0) \<longrightarrow>
            filefunlock K s pathname pw = Inl (Panic ''unlock_inodes: No free pid slots found'')"
  proof (intro impI)
    assume a: "peek (password (icache s1 ip)) \<noteq> NUL
           \<and> strncmp (password (icache s1 ip)) pw (PASSLEN K) = 0
           \<and> ?row < NINODES
           \<and> (\<forall>i<NPROC K. pids s1 ?row i \<noteq> pid s1 \<and> pids s1 ?row i \<noteq> 0)"
    then have "find (\<lambda>i. pids s1 ?row i = 0) [0 ..< NPROC K] = None"
      by (simp add: find_upt_None)
    moreover have "\<not> list_ex (\<lambda>i. pids s1 ?row i = pid s1) [0 ..< NPROC K]"
      using a by (simp add: list_ex_upt)
    ultimately show "filefunlock K s pathname pw = Inl (Panic ''unlock_inodes: No free pid slots found'')"
      using assms a by (simp add: filefunlock_def unlock_inode_def Let_def)
  qed
  show ?thesis
    using c1 c2 c3 c4 by blast
qed

lemma fs_pw_icache: "icache fs_pw i = inode_zero"
  by (simp add: fs_pw_def fs_blank_def)

lemma iget_root_pw:
  "iget xv6 fs_pw ROOTDEV ROOTINO
   = Inr (0, upd_inode fs_pw 0 (\<lambda>n. n\<lparr>dev := ROOTDEV, inum := ROOTINO, ref := 1, flags := 0\<rparr>))"
  by (rule iget_fresh) (simp_all add: fs_pw_icache inode_zero_def xv6_simps)

lemma readlinki_root: "filereadlinki K s ''/'' n = Inr (2, [SLASH, NUL], s)"
  by (simp add: filereadlinki_def readlink_def peek_def SLASH_def NUL_def)

lemma namei_root_pw:
  "namei xv6 fs_pw ''/''
   = Inr (Some 0, upd_inode fs_pw 0 (\<lambda>n. n\<lparr>dev := ROOTDEV, inum := ROOTINO, ref := 1, flags := 0\<rparr>))"
  by (simp add: namei_def namex_def iget_root_pw namex_loop.simps [of xv6 _ 0 "''/''"]
      skipelem_def peek_def SLASH_def NUL_def)

lemma lock_target_root_pw: "lock_target xv6 fs_pw ''/'' = Inr (Some 0, fs_pw_root)"
proof -
  have "store (replicate (MAXPATH xv6) NUL) 0 [SLASH, NUL] = Inr (SLASH # NUL # replicate 126 NUL)"
    by (simp add: store_def xv6_simps)
  moreover have "cstr (SLASH # NUL # replicate 126 NUL) 0 = Inr ''/''"
    by (simp add: cstr_def SLASH_def NUL_def)
  moreover have "ilock (upd_inode fs_pw 0 (\<lambda>n. n\<lparr>dev := ROOTDEV, inum := ROOTINO, ref := 1, flags := 0\<rparr>)) 0
                 = Inr fs_pw_root"
    by (simp add: ilock_def upd_inode_def fs_pw_def fs_blank_def inode_zero_def dinode_zero_def
        ROOTDEV_def ROOTINO_def I_BUSY_def I_VALID_def T_DIR_def Let_def fs_pw_root_def fun_eq_iff)
  ultimately show ?thesis
    by (simp add: lock_target_def readlinki_root namei_root_pw)
qed

lemma fs_pw_root_fields:
  "password (icache fs_pw_root 0) = ''pw'' @ replicate 8 NUL"
  "inum (icache fs_pw_root 0) = 1"
  "pids fs_pw_root = (\<lambda>i j. 0)" "pid fs_pw_root = 1"
  by (simp_all add: fs_pw_root_def upd_inode_def fs_pw_def fs_blank_def)

lemma strncmp_pw:
  "strncmp (password (icache fs_pw_root 0)) ''pw'' (PASSLEN xv6) = 0"
  "strncmp (password (icache fs_pw_root 0)) ''no'' (PASSLEN xv6) \<noteq> 0"
  by (simp_all add: fs_pw_root_fields(1) xv6_simps eval_nat_numeral peek_def NUL_def)

theorem filefunlock_grant_witness:
  "lock_target xv6 fs_pw ''/'' = Inr (Some 0, fs_pw_root)
   \<and> (\<exists>s'. filefunlock xv6 fs_pw ''/'' ''pw'' = Inr (0, s')
          \<and> strncmp (password (icache fs_pw_root 0)) ''pw'' (PASSLEN xv6) = 0
          \<and> (\<exists>i<NPROC xv6. pids s' (unat (inum (icache fs_pw_root 0))) i = pid fs_pw_root))
   \<and> strncmp (password (icache fs_pw_root 0)) ''no'' (PASSLEN xv6) \<noteq> 0
   \<and> (\<exists>s'. filefunlock xv6 fs_pw ''/'' ''no'' = Inr (- 1, s') \<and> pids s' = pids fs_pw_root)"
proof -
  note g = filefunlock_grant [OF lock_target_root_pw]
  have f: "find (\<lambda>i. True) [0 ..< 64] = Some 0"
    by (rule find_first) simp_all
  have lk: "and (flags (icache fs_pw_root 0)) I_BUSY \<noteq> 0 \<and> 1 \<le> ref (icache fs_pw_root 0)"
    by (rule lock_target_locked [OF lock_target_root_pw])
  have u: "unlock_inode xv6 fs_pw_root 0 = Inr (fs_pw_root\<lparr>pids := (pids fs_pw_root)(1 := (pids fs_pw_root 1)(0 := 1))\<rparr>)"
    by (simp add: unlock_inode_def fs_pw_root_fields(2,3,4) list_ex_upt NINODES_def xv6_simps f)
  have pk: "peek (password (icache fs_pw_root 0)) \<noteq> NUL"
    by (simp add: fs_pw_root_fields(1) peek_def NUL_def)
  note cm = strncmp_pw(1)
  have "\<exists>s'. filefunlock xv6 fs_pw ''/'' ''pw'' = Inr (0, s')"
    using lk
    by (simp add: filefunlock_def lock_target_root_pw pk cm u iunlock_def)
  then show ?thesis
    using g [of "''pw''"] g [of "''no''"] lock_target_root_pw strncmp_pw
    by auto
qed

section \<open>Properties of \<^verbatim>\<open>filereadlink\<close> and \<^verbatim>\<open>filereadlinki\<close>\<close>




















lemma readlinki_f: "filereadlinki xv6 s ''/f'' 128 = Inr (2, ''/f'' @ [NUL], s)"
  by (simp add: filereadlinki_def readlink_def peek_def SLASH_def NUL_def strncpy_def xv6_simps
      readlink_restart.simps [of xv6 False s] cstr_def poke_def
      readlink_walk.simps [of xv6 False s] walk_step_def skipelem_def memmove_def Let_def cstr_name_def
      store_def safestrcpy_def MAX_SYMLINK_LOOPS_def replicate_Suc_numeral)


section \<open>\<^verbatim>\<open>filefunprot\<close>\<close>

lemma fs_pw_file_icache:
  "icache fs_pw_file i = (if i = 1 then inode_zero\<lparr>dev := 1, inum := 2, ref := 1, flags := 2, type := T_FILE,
                   nlink := 1, fsize := 5, addrs := (\<lambda>i. if i = 0 then 101 else 0),
                   password := ''pw'' @ replicate 8 NUL\<rparr> else inode_zero)"
  by (simp add: fs_pw_file_def upd_inode_def fs_pw_icache)

lemma iget_root_file:
  "iget xv6 fs_pw_file ROOTDEV ROOTINO
   = Inr (0, upd_inode fs_pw_file 0 (\<lambda>n. n\<lparr>dev := ROOTDEV, inum := ROOTINO, ref := 1, flags := 0\<rparr>))"
  by (rule iget_fresh) (simp_all add: fs_pw_file_icache inode_zero_def xv6_simps ROOTINO_def)

lemma ilock_root_file:
  "ilock (upd_inode fs_pw_file 0 (\<lambda>n. n\<lparr>dev := ROOTDEV, inum := ROOTINO, ref := 1, flags := 0\<rparr>)) 0
   = Inr fs_pw_file1"
  by (simp add: ilock_def upd_inode_def fs_pw_file_def fs_pw_def fs_blank_def inode_zero_def dinode_zero_def
        ROOTDEV_def ROOTINO_def I_BUSY_def I_VALID_def T_DIR_def Let_def fs_pw_file1_def fun_eq_iff)

lemma fs_pw_file1_icache:
  "icache fs_pw_file1 i =
     (if i = 0 then inode_zero\<lparr>dev := 1, inum := 1, ref := 1, flags := 3, type := T_DIR,
                   nlink := 1, fsize := 16, addrs := (\<lambda>i. if i = 0 then 100 else 0),
                   password := ''pw'' @ replicate 8 NUL\<rparr>
      else if i = 1 then inode_zero\<lparr>dev := 1, inum := 2, ref := 1, flags := 2, type := T_FILE,
                   nlink := 1, fsize := 5, addrs := (\<lambda>i. if i = 0 then 101 else 0),
                   password := ''pw'' @ replicate 8 NUL\<rparr> else inode_zero)"
  by (simp add: fs_pw_file1_def upd_inode_def fs_pw_file_icache)

lemma fs_pw_file1_blocks: "blocks fs_pw_file1 1 100 = bytes [CHR 0x02, CHR 0x00, CHR ''f'']"
  by (simp add: fs_pw_file1_def fs_pw_file_def upd_inode_def fs_pw_def fs_blank_def)

lemma readi_root_file:
  "readi xv6 fs_pw_file1 0 0 16
   = Inr (16, CHR 0x02 # CHR 0x00 # CHR ''f'' # replicate 13 NUL, fs_pw_file1)"
  by (simp add: readi_def fs_pw_file1_icache fs_pw_file1_blocks inode_zero_def T_DIR_def T_DEV_def Let_def
      bmap_def bmap_field_def xv6_simps BSIZE_def bytes_def readi_loop.simps DESIZE_def
      upt_conv_Cons nth_Cons' replicate_Suc_numeral NUL_def)


lemma iget_file:
  "iget xv6 fs_pw_file1 1 2 = Inr (1, fs_pw_file2)"
proof -
  have "iget xv6 fs_pw_file1 1 2 = Inr (1, upd_inode fs_pw_file1 1 (\<lambda>n. n\<lparr>ref := ref n + 1\<rparr>))"
    by (rule iget_cached) (auto simp: fs_pw_file1_icache inode_zero_def xv6_simps)
  moreover have "upd_inode fs_pw_file1 1 (\<lambda>n. n\<lparr>ref := ref n + 1\<rparr>) = fs_pw_file2"
    by (simp add: fs_pw_file2_def upd_inode_def fs_pw_file1_icache inode_zero_def)
  ultimately show ?thesis by simp
qed

lemma dirlookup_f:
  "dirlookup xv6 fs_pw_file1 0 (CHR ''f'' # replicate 13 NUL) = Inr (Some 1, 0, fs_pw_file2)"
proof -
  have t: "type (icache fs_pw_file1 0) = T_DIR" "fsize (icache fs_pw_file1 0) = 16"
    "dev (icache fs_pw_file1 0) = 1"
    by (simp_all add: fs_pw_file1_icache inode_zero_def)
  have d: "de_inum (CHR 0x02 # CHR 0x00 # CHR ''f'' # replicate 13 NUL) = 2"
    by (simp add: de_inum_def)
  have n: "namecmp xv6 (CHR ''f'' # replicate 13 NUL)
             (de_name xv6 (CHR 0x02 # CHR 0x00 # CHR ''f'' # replicate 13 NUL)) = 0"
    by (simp add: namecmp_def de_name_def xv6_simps replicate_Suc_numeral eval_nat_numeral
        peek_def NUL_def)
  show ?thesis
    by (simp add: dirlookup_def dirlookup_from.simps [of xv6 fs_pw_file1 0 _ 0] t readi_root_file
        d n iget_file DESIZE_def xv6_simps)
qed

lemma iunlockput_root: "iunlockput xv6 fs_pw_file2 0 = Inr fs_pw_file3"
proof -
  have i: "icache fs_pw_file2 0 = inode_zero\<lparr>dev := 1, inum := 1, ref := 1, flags := 3, type := T_DIR,
                   nlink := 1, fsize := 16, addrs := (\<lambda>i. if i = 0 then 100 else 0),
                   password := ''pw'' @ replicate 8 NUL\<rparr>"
    by (simp add: fs_pw_file2_def upd_inode_def fs_pw_file1_icache)
  have "upd_inode (upd_inode fs_pw_file2 0 (\<lambda>i. i\<lparr>flags := and (flags i) (not I_BUSY)\<rparr>)) 0
          (\<lambda>i. i\<lparr>ref := ref i - 1\<rparr>) = fs_pw_file3"
    by (simp add: fs_pw_file3_def upd_inode_def i inode_zero_def I_BUSY_def fun_eq_iff)
  then show ?thesis
    by (simp add: iunlockput_def iunlock_def iput_def i inode_zero_def I_BUSY_def I_VALID_def
        upd_inode_def)
qed

lemma skip_f: "skipelem xv6 ''/f'' (replicate 14 NUL) = Some ([], CHR ''f'' # replicate 13 NUL)"
  by (simp add: skipelem_def peek_def SLASH_def NUL_def xv6_simps memmove_def Let_def replicate_Suc_numeral)

lemma namei_f: "namei xv6 fs_pw_file ''/f'' = Inr (Some 1, fs_pw_file3)"
proof -
  have t: "type (icache fs_pw_file1 0) = T_DIR"
    by (simp add: fs_pw_file1_icache inode_zero_def)
  have e: "skipelem xv6 [] (CHR ''f'' # replicate 13 NUL) = None"
    by (simp add: skipelem_def peek_def)
  show ?thesis
    by (simp add: namei_def namex_def iget_root_file xv6_simps peek_def [of "''/f''"] SLASH_def
        namex_loop.simps [of xv6 _ 0 "''/f''"] skip_f [unfolded xv6_simps SLASH_def] ilock_root_file t dirlookup_f
        iunlockput_root namex_loop.simps [of xv6 _ "Suc 0" "[]"] e)
qed


lemma fs_pw_file3_icache:
  "icache fs_pw_file3 (Suc 0) = inode_zero\<lparr>dev := 1, inum := 2, ref := 2, flags := 2, type := T_FILE,
                   nlink := 1, fsize := 5, addrs := (\<lambda>i. if i = 0 then 101 else 0),
                   password := ''pw'' @ replicate 8 NUL\<rparr>"
  by (simp add: fs_pw_file3_def fs_pw_file2_def upd_inode_def fs_pw_file1_icache inode_zero_def)

lemma lock_target_f:
  "lock_target xv6 fs_pw_file ''/f''
   = Inr (Some 1, upd_inode fs_pw_file3 1 (\<lambda>i. i\<lparr>flags := or (flags i) I_BUSY\<rparr>))"
proof -
  have "store (replicate (MAXPATH xv6) NUL) 0 (''/f'' @ [NUL])
        = Inr (''/f'' @ NUL # replicate 125 NUL)"
    by (simp add: store_def xv6_simps replicate_Suc_numeral)
  moreover have "cstr (''/f'' @ NUL # replicate 125 NUL) 0 = Inr ''/f''"
    by (simp add: cstr_def NUL_def)
  moreover have "ilock fs_pw_file3 1
                 = Inr (upd_inode fs_pw_file3 1 (\<lambda>i. i\<lparr>flags := or (flags i) I_BUSY\<rparr>))"
    by (simp add: ilock_def fs_pw_file3_icache inode_zero_def I_BUSY_def I_VALID_def Let_def
        upd_inode_def)
  ultimately show ?thesis
    using readlinki_f [of fs_pw_file] by (simp add: lock_target_def namei_f xv6_simps)
qed

text \<open>
  C5 fails on the code. The file \<open>/f\<close> has the password \<open>pw\<close> and is cached with one reference.
  \<^verbatim>\<open>filefunprot\<close> with another password returns -1 and leaves the password as it was, but the
  reference that \<^verbatim>\<open>namei\<close> took is not given back: the inode has two references afterwards.
\<close>

theorem filefunprot_leaks_reference:
  "ref (icache fs_pw_file 1) = 1 \<and> inum (icache fs_pw_file 1) = 2
   \<and> (\<exists>s'. filefunprot xv6 fs_pw_file ''/f'' ''no'' = Inr (- 1, s')
          \<and> password (icache s' 1) = password (icache fs_pw_file 1)
          \<and> inum (icache s' 1) = 2 \<and> ref (icache s' 1) = 2)"
proof -
  let ?s1 = "upd_inode fs_pw_file3 1 (\<lambda>i. i\<lparr>flags := or (flags i) I_BUSY\<rparr>)"
  have p: "password (icache ?s1 1) = ''pw'' @ replicate 8 NUL"
    by (simp add: upd_inode_def fs_pw_file3_icache)
  have pk: "peek (password (icache ?s1 1)) \<noteq> NUL"
    using p by (simp add: peek_def NUL_def)
  have cm: "strncmp (password (icache ?s1 1)) ''no'' (PASSLEN xv6) \<noteq> 0"
    using p by (simp add: xv6_simps eval_nat_numeral peek_def NUL_def)
  have ul: "iunlock ?s1 1 = Inr (upd_inode ?s1 1 (\<lambda>i. i\<lparr>flags := and (flags i) (not I_BUSY)\<rparr>))"
    by (rule iunlock_locked [OF lock_target_locked [OF lock_target_f]])
  have "filefunprot xv6 fs_pw_file ''/f'' ''no''
        = Inr (- 1, upd_inode ?s1 1 (\<lambda>i. i\<lparr>flags := and (flags i) (not I_BUSY)\<rparr>))"
    using lock_target_f pk cm ul by (simp add: filefunprot_def)
  then show ?thesis
    by (simp add: upd_inode_def fs_pw_file3_icache fs_pw_file_icache)
qed

end
